theory Spec2Isabelle
  imports Complex_Main
begin

section \<open>Keyboard variant (main_wasd.js): the car\<close>

text \<open>
  The car is modelled twice. In this section JavaScript numbers are exact reals:
  \<open>Math.sqrt\<close>, \<open>Math.sin\<close>, \<open>Math.cos\<close>, \<open>Math.abs\<close> and \<open>Math.sign\<close> are
  \<open>sqrt\<close>, \<open>sin\<close>, \<open>cos\<close>, \<open>abs\<close> and \<open>sgn\<close>, and \<open>x ** 2\<close> is \<open>x\<^sup>2\<close>.
  This idealisation carries the statements whose conclusions keep a margin that the
  rounding of doubles cannot bridge. The next section takes the arithmetic as a
  parameter and gives the arithmetic of doubles as one instance; it carries the
  statements that turn on rounding.

  The object \<open>carSystem\<close> has the nested objects \<open>position\<close>, \<open>velocity\<close> (fields
  \<open>x\<close>, \<open>z\<close>) and \<open>keys\<close>; the nested coordinates are flattened into
  \<open>position_x\<close>, \<open>position_z\<close>, \<open>velocity_x\<close>, \<open>velocity_z\<close>.
\<close>

record keys =
  forward :: bool
  backward :: bool
  left :: bool
  right :: bool
  brake :: bool

record car_system =
  position_x :: real
  position_z :: real
  velocity_x :: real
  velocity_z :: real
  rotation :: real
  speed :: real
  acceleration :: real
  maxSpeed :: real
  turnSpeed :: real
  friction :: real
  brakeForce :: real
  keys :: keys

text \<open>The object literal that initialises \<open>carSystem\<close>.\<close>

definition no_keys :: keys where
  "no_keys = \<lparr>forward = False, backward = False, left = False, right = False, brake = False\<rparr>"

definition carSystem_init :: car_system where
  "carSystem_init =
     \<lparr>position_x = 0, position_z = 0, velocity_x = 0, velocity_z = 0,
      rotation = 0, speed = 0,
      acceleration = 0.012, maxSpeed = 0.40, turnSpeed = 0.05,
      friction = 0.95, brakeForce = 0.85,
      keys = no_keys\<rparr>"

text \<open>
  \<open>updateCarPhysics\<close>. Each commented block of the source function is one function
  here, named after its comment, and \<open>updateCarPhysics\<close> runs them in the order of the
  source. The two trailing calls of the source function, \<open>updateCarVisualPosition\<close>
  and \<open>updateUI\<close>, do not write \<open>carSystem\<close>; the first is modelled with the render
  loop, the second writes only page text.
\<close>

text \<open>"Calculate acceleration based on input": the local \<open>acceleration\<close>.\<close>

definition inputAcceleration :: "car_system \<Rightarrow> real" where
  "inputAcceleration c =
     (if forward (keys c) then acceleration c
      else if backward (keys c) then - acceleration c
      else 0)"

text \<open>"Apply braking".\<close>

definition applyBraking :: "car_system \<Rightarrow> car_system" where
  "applyBraking c =
     (if brake (keys c)
      then c\<lparr>velocity_x := velocity_x c * brakeForce c,
              velocity_z := velocity_z c * brakeForce c\<rparr>
      else c)"

text \<open>
  "Update rotation based on turning input and current speed": two \<open>if\<close> statements
  in sequence, both reading the stored \<open>speed\<close>, which is the value the previous call
  left there.
\<close>

definition updateRotation :: "car_system \<Rightarrow> car_system" where
  "updateRotation c =
     (let c1 = (if left (keys c) \<and> \<bar>speed c\<bar> > 0.01
                then c\<lparr>rotation := rotation c + turnSpeed c * sgn (speed c)\<rparr>
                else c)
      in if right (keys c1) \<and> \<bar>speed c1\<bar> > 0.01
         then c1\<lparr>rotation := rotation c1 - turnSpeed c1 * sgn (speed c1)\<rparr>
         else c1)"

text \<open>
  "Calculate velocity based on acceleration and rotation" and "Apply acceleration in
  car's forward direction"; \<open>acc\<close> is the local \<open>acceleration\<close>.
\<close>

definition applyAcceleration :: "real \<Rightarrow> car_system \<Rightarrow> car_system" where
  "applyAcceleration acc c =
     (let cs = cos (rotation c);
          sn = sin (rotation c)
      in c\<lparr>velocity_x := velocity_x c + acc * sn,
            velocity_z := velocity_z c + acc * cs\<rparr>)"

text \<open>"Apply friction".\<close>

definition applyFriction :: "car_system \<Rightarrow> car_system" where
  "applyFriction c =
     c\<lparr>velocity_x := velocity_x c * friction c,
       velocity_z := velocity_z c * friction c\<rparr>"

text \<open>
  "Calculate speed and limit maximum". The quotient \<open>maxSpeed / speed\<close> is taken only
  when \<open>speed > maxSpeed\<close>; with \<open>0 \<le> maxSpeed\<close> the divisor is positive. (For a
  negative \<open>maxSpeed\<close> and a zero velocity JavaScript divides by zero and yields a
  non-number, which a real cannot express; every statement below about the limited
  velocity assumes \<open>0 \<le> maxSpeed\<close>.)
\<close>

definition limitSpeed :: "car_system \<Rightarrow> car_system" where
  "limitSpeed c =
     (let c1 = c\<lparr>speed := sqrt ((velocity_x c)\<^sup>2 + (velocity_z c)\<^sup>2)\<rparr>
      in if speed c1 > maxSpeed c1
         then (let ratio = maxSpeed c1 / speed c1
               in c1\<lparr>velocity_x := velocity_x c1 * ratio,
                      velocity_z := velocity_z c1 * ratio,
                      speed := maxSpeed c1\<rparr>)
         else c1)"

text \<open>"Update position".\<close>

definition updatePosition :: "car_system \<Rightarrow> car_system" where
  "updatePosition c =
     c\<lparr>position_x := position_x c + velocity_x c,
       position_z := position_z c + velocity_z c\<rparr>"

definition updateCarPhysics :: "car_system \<Rightarrow> car_system" where
  "updateCarPhysics c0 =
    (let acc = inputAcceleration c0;
         c1 = applyBraking c0;
         c2 = updateRotation c1;
         c3 = applyAcceleration acc c2;
         c4 = applyFriction c3;
         c5 = limitSpeed c4
     in updatePosition c5)"

text \<open>
  The state right after "Apply friction", before the speed is recomputed and limited:
  the same statements up to that point.
\<close>

definition beforeLimit :: "car_system \<Rightarrow> car_system" where
  "beforeLimit c0 =
    (let acc = inputAcceleration c0;
         c1 = applyBraking c0;
         c2 = updateRotation c1;
         c3 = applyAcceleration acc c2
     in applyFriction c3)"

text \<open>The magnitude of the velocity vector of a state.\<close>

definition vmag :: "car_system \<Rightarrow> real" where
  "vmag c = sqrt ((velocity_x c)\<^sup>2 + (velocity_z c)\<^sup>2)"

section \<open>Keyboard variant (main_wasd.js): the car in any arithmetic\<close>

text \<open>
  The same function with its arithmetic as a parameter: the value of a numeric literal,
  the four operations, \<open>Math.sqrt\<close>, \<open>x ** 2\<close>, \<open>Math.sin\<close> and \<open>Math.cos\<close>.
  Unary minus, \<open>Math.abs\<close>, \<open>Math.sign\<close> and the comparisons are exact in every
  arithmetic considered here.
\<close>

record arith =
  num_lit :: "real \<Rightarrow> real"
  num_add :: "real \<Rightarrow> real \<Rightarrow> real"
  num_sub :: "real \<Rightarrow> real \<Rightarrow> real"
  num_mul :: "real \<Rightarrow> real \<Rightarrow> real"
  num_div :: "real \<Rightarrow> real \<Rightarrow> real"
  num_sqrt :: "real \<Rightarrow> real"
  num_sqr :: "real \<Rightarrow> real"
  num_sin :: "real \<Rightarrow> real"
  num_cos :: "real \<Rightarrow> real"

definition exact_arith :: arith where
  "exact_arith =
     \<lparr>num_lit = (\<lambda>x. x),
      num_add = (\<lambda>x y. x + y), num_sub = (\<lambda>x y. x - y),
      num_mul = (\<lambda>x y. x * y), num_div = (\<lambda>x y. x / y),
      num_sqrt = sqrt, num_sqr = (\<lambda>x. x\<^sup>2),
      num_sin = sin, num_cos = cos\<rparr>"

text \<open>
  The arithmetic of doubles. \<open>to_double\<close> rounds a real to the nearest number with a
  53-bit significand, ties to the even significand, as IEEE 754 binary64 does in its
  normal range; overflow, subnormal numbers, infinities and \<open>NaN\<close> are not modelled,
  and no value met below comes near them. ECMAScript fixes this rounding for the four
  operations and for literals. It leaves \<open>**\<close>, \<open>Math.sin\<close> and \<open>Math.cos\<close> to the
  engine; they are taken as correctly rounded here, and the inputs below use them only
  where every engine is exact: squares of small integers, \<open>Math.sin(0)\<close>,
  \<open>Math.cos(0)\<close>.
\<close>

definition round_even :: "real \<Rightarrow> int" where
  "round_even z =
     (if z - of_int \<lfloor>z\<rfloor> = 1 / 2
      then (if even \<lfloor>z\<rfloor> then \<lfloor>z\<rfloor> else \<lfloor>z\<rfloor> + 1)
      else round z)"

definition to_double :: "real \<Rightarrow> real" where
  "to_double x =
     (if x = 0 then 0
      else of_int (round_even (x / 2 powr (of_int \<lfloor>log 2 \<bar>x\<bar>\<rfloor> - 52)))
           * 2 powr (of_int \<lfloor>log 2 \<bar>x\<bar>\<rfloor> - 52))"


definition double_arith :: arith where
  "double_arith =
     \<lparr>num_lit = to_double,
      num_add = (\<lambda>x y. to_double (x + y)), num_sub = (\<lambda>x y. to_double (x - y)),
      num_mul = (\<lambda>x y. to_double (x * y)), num_div = (\<lambda>x y. to_double (x / y)),
      num_sqrt = (\<lambda>x. to_double (sqrt x)), num_sqr = (\<lambda>x. to_double (x * x)),
      num_sin = (\<lambda>x. to_double (sin x)), num_cos = (\<lambda>x. to_double (cos x))\<rparr>"

text \<open>
  The object literal that initialises \<open>carSystem\<close>, each literal read in the given
  arithmetic, and the blocks of \<open>updateCarPhysics\<close> as above, each operation in the
  given arithmetic.
\<close>

definition carSystem_init_in :: "arith \<Rightarrow> car_system" where
  "carSystem_init_in A =
     \<lparr>position_x = num_lit A 0, position_z = num_lit A 0,
      velocity_x = num_lit A 0, velocity_z = num_lit A 0,
      rotation = num_lit A 0, speed = num_lit A 0,
      acceleration = num_lit A 0.012, maxSpeed = num_lit A 0.40,
      turnSpeed = num_lit A 0.05,
      friction = num_lit A 0.95, brakeForce = num_lit A 0.85,
      keys = no_keys\<rparr>"



definition updateRotation_in :: "arith \<Rightarrow> car_system \<Rightarrow> car_system" where
  "updateRotation_in A c =
     (let c1 = (if left (keys c) \<and> \<bar>speed c\<bar> > num_lit A 0.01
                then c\<lparr>rotation :=
                        num_add A (rotation c) (num_mul A (turnSpeed c) (sgn (speed c)))\<rparr>
                else c)
      in if right (keys c1) \<and> \<bar>speed c1\<bar> > num_lit A 0.01
         then c1\<lparr>rotation :=
                  num_sub A (rotation c1) (num_mul A (turnSpeed c1) (sgn (speed c1)))\<rparr>
         else c1)"








subsection \<open>The integration step as the specification words it\<close>











text \<open>The keys state of the scenario "only forward held", and its start state.\<close>

definition forward_only :: keys where
  "forward_only = no_keys\<lparr>forward := True\<rparr>"

definition drive_start :: car_system where
  "drive_start = carSystem_init\<lparr>keys := forward_only\<rparr>"

section \<open>Keyboard variant (main_wasd.js): the anchor\<close>

text \<open>
  The entries of a pose array and of a matrix are JavaScript values: a number, the
  non-number \<open>NaN\<close>, or \<open>undefined\<close>. Reading an array beyond its length gives
  \<open>undefined\<close>, and the unary minus of \<open>undefined\<close> is \<open>NaN\<close>.
\<close>

datatype jsval = Num real | NaN | Undefined

definition js_index :: "jsval list \<Rightarrow> nat \<Rightarrow> jsval" where
  "js_index m i = (if i < length m then m ! i else Undefined)"

fun js_neg :: "jsval \<Rightarrow> jsval" where
  "js_neg (Num r) = Num (- r)"
| "js_neg NaN = NaN"
| "js_neg Undefined = NaN"

datatype js_error = TypeError | RecognizerError

text \<open>
  The property \<open>event.data.matrixGL_RH\<close>: an array, or no value at all (\<open>null\<close> or
  \<open>undefined\<close>), on which an indexed read throws a \<open>TypeError\<close>.
\<close>

datatype pose = PoseArray "jsval list" | PoseMissing

record marker_event =
  idMatrix :: int
  matrixGL_RH :: pose

text \<open>
  three.js is not part of the repository. A \<open>Matrix4\<close> is the list of the sixteen
  arguments of \<open>Matrix4.set\<close> (row by row); \<open>new THREE.Matrix4()\<close> is the identity;
  \<open>Vector3.setFromMatrixPosition\<close> reads the last column of the first three rows.
  \<open>Euler.setFromRotationMatrix\<close> is taken as a parameter, written \<open>E\<close> below.
\<close>

type_synonym matrix4 = "jsval list"
type_synonym vector3 = "jsval \<times> jsval \<times> jsval"
type_synonym euler = "jsval \<times> jsval \<times> jsval"

definition identity4 :: matrix4 where
  "identity4 = map Num [1, 0, 0, 0,  0, 1, 0, 0,  0, 0, 1, 0,  0, 0, 0, 1]"

definition setFromMatrixPosition :: "matrix4 \<Rightarrow> vector3" where
  "setFromMatrixPosition mat = (js_index mat 3, js_index mat 7, js_index mat 11)"

text \<open>
  \<open>fixMatrix(three_mat, m)\<close>: the value written into \<open>three_mat\<close>. The arguments of
  \<open>set\<close> are evaluated before the call, so a missing \<open>m\<close> throws before anything is
  written.
\<close>

fun fixMatrix :: "pose \<Rightarrow> js_error + matrix4" where
  "fixMatrix PoseMissing = Inl TypeError"
| "fixMatrix (PoseArray m) = Inr
     [js_index m 0, js_index m 8, js_neg (js_index m 4), js_index m 12,
      js_index m 1, js_index m 9, js_neg (js_index m 5), js_index m 13,
      js_index m 2, js_index m 10, js_neg (js_index m 6), js_index m 14,
      js_index m 3, js_index m 11, js_neg (js_index m 7), js_index m 15]"

record ar_system =
  markerDetected :: bool
  lastDetectionTime :: real
  planeMatrix :: matrix4
  planePosition :: vector3
  planeRotation :: euler
  initialized :: bool
  planeEstablished :: bool
  searchingForMarker :: bool

definition arSystem_init :: ar_system where
  "arSystem_init =
     \<lparr>markerDetected = False, lastDetectionTime = 0,
      planeMatrix = identity4,
      planePosition = (Num 0, Num 0, Num 0),
      planeRotation = (Num 0, Num 0, Num 0),
      initialized = False, planeEstablished = False, searchingForMarker = True\<rparr>"

text \<open>The two phases of the specification, read off the flag \<open>planeEstablished\<close>.\<close>

datatype phase = Searching | Anchored

definition phase_of :: "ar_system \<Rightarrow> phase" where
  "phase_of a = (if planeEstablished a then Anchored else Searching)"

definition updatePlaneReference ::
  "(matrix4 \<Rightarrow> euler) \<Rightarrow> pose \<Rightarrow> ar_system \<Rightarrow> js_error + ar_system" where
  "updatePlaneReference E markerMatrix a =
     (case fixMatrix markerMatrix of
        Inl e \<Rightarrow> Inl e
      | Inr mat \<Rightarrow>
          Inr (let a1 = a\<lparr>planeMatrix := mat\<rparr>;
                   a2 = a1\<lparr>planePosition := setFromMatrixPosition (planeMatrix a1)\<rparr>;
                   a3 = a2\<lparr>planeRotation := E (planeMatrix a2)\<rparr>
               in if \<not> initialized a3 then a3\<lparr>initialized := True\<rparr> else a3))"

text \<open>
  \<open>handleMarkerDetection\<close>; \<open>now\<close> is the reading of \<open>performance.now()\<close>. When
  \<open>updatePlaneReference\<close> throws, nothing has been written yet, so the state at the
  throw is the state before the call.
\<close>

definition handleMarkerDetection ::
  "(matrix4 \<Rightarrow> euler) \<Rightarrow> real \<Rightarrow> marker_event \<Rightarrow> ar_system \<Rightarrow> js_error + ar_system" where
  "handleMarkerDetection E now ev a =
     (if idMatrix ev \<noteq> - 1 \<and> searchingForMarker a
      then (case updatePlaneReference E (matrixGL_RH ev) a of
              Inl e \<Rightarrow> Inl e
            | Inr a1 \<Rightarrow>
                Inr (a1\<lparr>markerDetected := True,
                        lastDetectionTime := now,
                        planeEstablished := True,
                        searchingForMarker := False\<rparr>))
      else Inr a)"

section \<open>Keyboard variant (main_wasd.js): the page\<close>

text \<open>
  The module-level variables the functions below read or write. \<open>arController\<close>
  records whether the variable holds a controller; the car model is absent until a
  loader callback sets it; of the container only the visibility and the matrix are kept.
\<close>

record model3d =
  model_x :: real
  model_y :: real
  model_z :: real
  model_rotation_y :: real

record world =
  carSystem :: car_system
  arSystem :: ar_system
  arLoaded :: bool
  arController :: bool
  lastProcessTime :: real
  carModel :: "model3d option"
  container_visible :: bool
  container_matrix :: matrix4

definition processingInterval :: real where
  "processingInterval = 1000 / 30"

definition setupFallbackCamera :: "world \<Rightarrow> world" where
  "setupFallbackCamera w =
     w\<lparr>arSystem := (arSystem w)\<lparr>initialized := True, markerDetected := False\<rparr>\<rparr>"

definition resetCarPosition :: "world \<Rightarrow> world" where
  "resetCarPosition w =
     w\<lparr>carSystem := (carSystem w)\<lparr>position_x := 0, position_z := 0,
                                    velocity_x := 0, velocity_z := 0,
                                    rotation := 0, speed := 0\<rparr>,
       arSystem := (arSystem w)\<lparr>planeEstablished := False,
                                  searchingForMarker := True,
                                  markerDetected := False,
                                  initialized := False\<rparr>\<rparr>"

text \<open>
  The key handlers of \<open>setupKeyboardControls\<close>. \<open>KeyG\<close> toggles the grid mesh, which
  is not part of the state kept here.
\<close>

datatype key_code = KeyW | KeyS | KeyA | KeyD | Space | KeyR | KeyG | OtherKey

fun setKey :: "key_code \<Rightarrow> bool \<Rightarrow> keys \<Rightarrow> keys" where
  "setKey KeyW b k = k\<lparr>forward := b\<rparr>"
| "setKey KeyS b k = k\<lparr>backward := b\<rparr>"
| "setKey KeyA b k = k\<lparr>left := b\<rparr>"
| "setKey KeyD b k = k\<lparr>right := b\<rparr>"
| "setKey Space b k = k\<lparr>brake := b\<rparr>"
| "setKey _ b k = k"

definition keydown :: "key_code \<Rightarrow> world \<Rightarrow> world" where
  "keydown code w =
     (let w1 = w\<lparr>carSystem := (carSystem w)\<lparr>keys := setKey code True (keys (carSystem w))\<rparr>\<rparr>
      in if code = KeyR then resetCarPosition w1 else w1)"

definition keyup :: "key_code \<Rightarrow> world \<Rightarrow> world" where
  "keyup code w =
     w\<lparr>carSystem := (carSystem w)\<lparr>keys := setKey code False (keys (carSystem w))\<rparr>\<rparr>"

definition updateCarVisualPosition :: "car_system \<Rightarrow> model3d \<Rightarrow> model3d" where
  "updateCarVisualPosition c m =
     m\<lparr>model_x := position_x c, model_z := position_z c,
       model_rotation_y := rotation c, model_y := 0.1\<rparr>"

text \<open>
  The whole of the source function \<open>updateCarPhysics\<close> on the page: the physics above,
  then the car model's transform "if it exists" and the plane is initialised.
\<close>

definition updateCarPhysics_page :: "world \<Rightarrow> world" where
  "updateCarPhysics_page w =
     (let w1 = w\<lparr>carSystem := updateCarPhysics (carSystem w)\<rparr>
      in if carModel w1 \<noteq> None \<and> initialized (arSystem w1)
         then w1\<lparr>carModel := map_option (updateCarVisualPosition (carSystem w1)) (carModel w1)\<rparr>
         else w1)"

definition updateContainerTransform :: "world \<Rightarrow> world" where
  "updateContainerTransform w =
     (if planeEstablished (arSystem w) \<or> (\<not> arLoaded w \<and> initialized (arSystem w))
      then w\<lparr>container_visible := True, container_matrix := planeMatrix (arSystem w)\<rparr>
      else w\<lparr>container_visible := False\<rparr>)"

text \<open>
  The recognizer is an external library. One call of \<open>arController.process\<close> is given
  by what it does to the page: the \<open>getMarker\<close> events it dispatches, each with the
  clock reading its handler sees, and whether the call throws afterwards. A handler
  that throws ends the call at once.
\<close>

record recognition =
  detections :: "(real \<times> marker_event) list"
  fails :: bool

fun dispatch ::
  "(matrix4 \<Rightarrow> euler) \<Rightarrow> (real \<times> marker_event) list \<Rightarrow> ar_system
     \<Rightarrow> ar_system \<times> js_error option" where
  "dispatch E [] a = (a, None)"
| "dispatch E ((t, ev) # evs) a =
     (case handleMarkerDetection E t ev a of
        Inl e \<Rightarrow> (a, Some e)
      | Inr a1 \<Rightarrow> dispatch E evs a1)"

definition process ::
  "(matrix4 \<Rightarrow> euler) \<Rightarrow> recognition \<Rightarrow> ar_system \<Rightarrow> ar_system \<times> js_error option" where
  "process E r a =
     (case dispatch E (detections r) a of
        (a1, Some e) \<Rightarrow> (a1, Some e)
      | (a1, None) \<Rightarrow> (a1, if fails r then Some RecognizerError else None))"

text \<open>
  \<open>renderLoop\<close>. The second component of the result tells whether
  \<open>arController.process\<close> was called in this step. \<open>lastProcessTime\<close> is written after
  the call, inside the \<open>try\<close>, so a call that throws leaves it as it was.
\<close>

definition shouldProcessAR :: "real \<Rightarrow> world \<Rightarrow> bool" where
  "shouldProcessAR currentTime w =
     (arLoaded w \<and> arController w \<and>
      searchingForMarker (arSystem w) \<and>
      \<not> planeEstablished (arSystem w) \<and>
      currentTime - lastProcessTime w \<ge> processingInterval)"

definition renderLoop ::
  "(matrix4 \<Rightarrow> euler) \<Rightarrow> real \<Rightarrow> recognition \<Rightarrow> world \<Rightarrow> world \<times> bool" where
  "renderLoop E currentTime r w =
     (let called = shouldProcessAR currentTime w;
          w1 = (if called
                then (case process E r (arSystem w) of
                        (a1, None) \<Rightarrow> w\<lparr>arSystem := a1, lastProcessTime := currentTime\<rparr>
                      | (a1, Some e) \<Rightarrow> w\<lparr>arSystem := a1\<rparr>)
                else w);
          w2 = updateCarPhysics_page w1;
          w3 = updateContainerTransform w2
      in (w3, called))"

text \<open>
  What can happen to the page, and the states it can be in: it starts with the
  anchor state of the declaration of \<open>arSystem\<close>, and every event is one of the
  handlers above.
\<close>

datatype page_event =
    KeyDown key_code
  | KeyUp key_code
  | Frame real recognition
  | ControllerCreated
  | ControllerLoaded
  | FallbackCamera
  | ModelLoaded model3d

fun page_step :: "(matrix4 \<Rightarrow> euler) \<Rightarrow> page_event \<Rightarrow> world \<Rightarrow> world" where
  "page_step E (KeyDown code) w = keydown code w"
| "page_step E (KeyUp code) w = keyup code w"
| "page_step E (Frame t r) w = fst (renderLoop E t r w)"
| "page_step E ControllerCreated w = w\<lparr>arController := True\<rparr>"
| "page_step E ControllerLoaded w = w\<lparr>arLoaded := True\<rparr>"
| "page_step E FallbackCamera w = setupFallbackCamera w"
| "page_step E (ModelLoaded m) w = w\<lparr>carModel := Some m\<rparr>"

definition world_init :: world where
  "world_init =
     \<lparr>carSystem = carSystem_init, arSystem = arSystem_init,
      arLoaded = False, arController = False, lastProcessTime = 0,
      carModel = None, container_visible = True, container_matrix = identity4\<rparr>"

inductive reachable :: "(matrix4 \<Rightarrow> euler) \<Rightarrow> world \<Rightarrow> bool"
  for E :: "matrix4 \<Rightarrow> euler" where
  start: "reachable E world_init"
| step: "reachable E w \<Longrightarrow> reachable E (page_step E ev w)"

section \<open>Gesture variant (class GhostWheelAR)\<close>

text \<open>
  The fields of the class that its handlers read or write. Fields whose names the
  keyboard variant already uses carry the prefix \<open>gw_\<close>. \<open>car\<close> is the loaded mesh,
  absent until the loader has run. The method \<open>fixMatrix\<close> of the class is, statement
  for statement, the function \<open>fixMatrix\<close> above.
\<close>

record car_mesh =
  mesh_x :: real
  mesh_y :: real
  mesh_z :: real
  mesh_rotation_y :: real

record ghost_wheel =
  carPosition_x :: real
  carPosition_z :: real
  carRotation :: real
  gw_arLoaded :: bool
  lastMarkerTime :: real
  markerVisible :: bool
  handTrackingConnected :: bool
  currentSteeringAngle :: real
  handConfidence :: real
  carSpeed :: real
  maxSteeringAngle :: real
  steeringSmoothing :: real
  smoothedSteering :: real
  isInitialized :: bool
  gw_container_matrix :: matrix4
  gw_container_visible :: bool
  car :: "car_mesh option"

text \<open>The constructor, followed by \<open>setupThreeJS\<close>, which hides the container.\<close>

definition GhostWheelAR_init :: ghost_wheel where
  "GhostWheelAR_init =
     \<lparr>carPosition_x = 0, carPosition_z = 0, carRotation = 0,
      gw_arLoaded = False, lastMarkerTime = 0, markerVisible = False,
      handTrackingConnected = False, currentSteeringAngle = 0, handConfidence = 0,
      carSpeed = 0.002, maxSteeringAngle = 45, steeringSmoothing = 0.1,
      smoothedSteering = 0, isInitialized = False,
      gw_container_matrix = identity4, gw_container_visible = False,
      car = None\<rparr>"

text \<open>
  A parsed message. A field is \<open>None\<close> when the property is missing or holds a value
  that \<open>||\<close> treats as false without being a number (\<open>undefined\<close>, \<open>null\<close>, \<open>NaN\<close>);
  \<open>x || 0\<close> is then \<open>0\<close>, as it is for the number \<open>0\<close>.
\<close>

record steering_data =
  steering_angle :: "real option"
  confidence :: "real option"

definition or_zero :: "real option \<Rightarrow> real" where
  "or_zero v = (case v of None \<Rightarrow> 0 | Some r \<Rightarrow> r)"

text \<open>\<open>THREE.MathUtils.lerp\<close> and \<open>THREE.MathUtils.degToRad\<close>, as three.js defines them.\<close>

definition lerp :: "real \<Rightarrow> real \<Rightarrow> real \<Rightarrow> real" where
  "lerp x y t = (1 - t) * x + t * y"

definition degToRad :: "real \<Rightarrow> real" where
  "degToRad d = d * (pi / 180)"

definition updateCarMovement :: "ghost_wheel \<Rightarrow> ghost_wheel" where
  "updateCarMovement g =
     (let steeringRad = degToRad (smoothedSteering g);
          g1 = g\<lparr>carRotation := carRotation g + steeringRad * 0.02\<rparr>;
          moveX = sin (carRotation g1) * carSpeed g1;
          moveZ = cos (carRotation g1) * carSpeed g1;
          g2 = g1\<lparr>carPosition_x := carPosition_x g1 + moveX,
                  carPosition_z := carPosition_z g1 + moveZ\<rparr>
      in case car g2 of
           None \<Rightarrow> g2
         | Some m \<Rightarrow>
             g2\<lparr>car := Some (m\<lparr>mesh_x := carPosition_x g2, mesh_y := 0,
                               mesh_z := carPosition_z g2,
                               mesh_rotation_y := carRotation g2\<rparr>)\<rparr>)"

text \<open>The three assignments at the head of \<open>handleHandTrackingData\<close>.\<close>

definition storeSteering :: "steering_data \<Rightarrow> ghost_wheel \<Rightarrow> ghost_wheel" where
  "storeSteering d g =
     (let g1 = g\<lparr>currentSteeringAngle := or_zero (steering_angle d)\<rparr>;
          g2 = g1\<lparr>handConfidence := or_zero (confidence d)\<rparr>
      in g2\<lparr>smoothedSteering :=
               lerp (smoothedSteering g2) (currentSteeringAngle g2) (steeringSmoothing g2)\<rparr>)"

definition handleHandTrackingData :: "steering_data \<Rightarrow> ghost_wheel \<Rightarrow> ghost_wheel" where
  "handleHandTrackingData d g =
     (let g1 = storeSteering d g
      in if handConfidence g1 > 0.7 \<and> car g1 \<noteq> None \<and> markerVisible g1
         then updateCarMovement g1
         else g1)"

definition updateMarkerMatrix :: "pose \<Rightarrow> ghost_wheel \<Rightarrow> js_error + ghost_wheel" where
  "updateMarkerMatrix markerMatrix g =
     (case fixMatrix markerMatrix of
        Inl e \<Rightarrow> Inl e
      | Inr mat \<Rightarrow> Inr (g\<lparr>gw_container_matrix := mat, gw_container_visible := True\<rparr>))"

definition GhostWheelAR_handleMarkerDetection ::
  "real \<Rightarrow> marker_event \<Rightarrow> ghost_wheel \<Rightarrow> js_error + ghost_wheel" where
  "GhostWheelAR_handleMarkerDetection now ev g =
     (if idMatrix ev \<noteq> - 1
      then (case updateMarkerMatrix (matrixGL_RH ev) g of
              Inl e \<Rightarrow> Inl e
            | Inr g1 \<Rightarrow> Inr (g1\<lparr>lastMarkerTime := now, markerVisible := True\<rparr>))
      else Inr g)"

fun GhostWheelAR_dispatch ::
  "(real \<times> marker_event) list \<Rightarrow> ghost_wheel \<Rightarrow> ghost_wheel \<times> js_error option" where
  "GhostWheelAR_dispatch [] g = (g, None)"
| "GhostWheelAR_dispatch ((t, ev) # evs) g =
     (case GhostWheelAR_handleMarkerDetection t ev g of
        Inl e \<Rightarrow> (g, Some e)
      | Inr g1 \<Rightarrow> GhostWheelAR_dispatch evs g1)"

definition GhostWheelAR_process ::
  "recognition \<Rightarrow> ghost_wheel \<Rightarrow> ghost_wheel \<times> js_error option" where
  "GhostWheelAR_process r g =
     (case GhostWheelAR_dispatch (detections r) g of
        (g1, Some e) \<Rightarrow> (g1, Some e)
      | (g1, None) \<Rightarrow> (g1, if fails r then Some RecognizerError else None))"

text \<open>
  One run of the closure \<open>renderLoop\<close> of \<open>startRenderLoop\<close>. \<open>videoReady\<close> says
  whether \<open>video.readyState\<close> is \<open>HAVE_ENOUGH_DATA\<close>; \<open>now\<close> is the reading of
  \<open>performance.now()\<close> in the visibility check. The call of \<open>process\<close> is not inside a
  \<open>try\<close> here: when it throws, the run ends there, with the error as second component,
  and neither the check nor the rendering happens.
\<close>

definition GhostWheelAR_renderLoop ::
  "bool \<Rightarrow> recognition \<Rightarrow> real \<Rightarrow> ghost_wheel \<Rightarrow> ghost_wheel \<times> js_error option" where
  "GhostWheelAR_renderLoop videoReady r now g =
     (case (if gw_arLoaded g \<and> videoReady then GhostWheelAR_process r g else (g, None)) of
        (g1, Some e) \<Rightarrow> (g1, Some e)
      | (g1, None) \<Rightarrow>
          (if now - lastMarkerTime g1 > 200
           then g1\<lparr>gw_container_visible := False, markerVisible := False\<rparr>
           else g1, None))"

text \<open>
  What can happen to an instance of the class: a run of the render loop, a message
  from the socket, the loaders that set \<open>arLoaded\<close> and \<open>car\<close>, the socket opening
  or closing, and the end of \<open>init\<close>. A run of the loop that throws leaves the state
  it had reached.
\<close>

datatype gw_event =
    GwFrame bool recognition real
  | GwMessage steering_data
  | GwARLoaded
  | GwCarLoaded car_mesh
  | GwSocket bool
  | GwInitialized

fun gw_step :: "gw_event \<Rightarrow> ghost_wheel \<Rightarrow> ghost_wheel" where
  "gw_step (GwFrame videoReady r now) g = fst (GhostWheelAR_renderLoop videoReady r now g)"
| "gw_step (GwMessage d) g = handleHandTrackingData d g"
| "gw_step GwARLoaded g = g\<lparr>gw_arLoaded := True\<rparr>"
| "gw_step (GwCarLoaded m) g = g\<lparr>car := Some m\<rparr>"
| "gw_step (GwSocket b) g = g\<lparr>handTrackingConnected := b\<rparr>"
| "gw_step GwInitialized g = g\<lparr>isInitialized := True\<rparr>"

text \<open>
  The clock readings of the detections that \<open>handleMarkerDetection\<close> of the class has
  handled to its end: within one call of \<open>process\<close> (events with the id \<open>-1\<close> are
  passed over, and an event that makes the handler throw ends the call), within one
  event, which calls \<open>process\<close> only in a frame with the recognizer loaded and the
  video ready, and within a sequence of events.
\<close>

fun handled_times :: "(real \<times> marker_event) list \<Rightarrow> real list" where
  "handled_times [] = []"
| "handled_times ((t, ev) # ds) =
     (if idMatrix ev = - 1 then handled_times ds
      else if matrixGL_RH ev = PoseMissing then []
      else t # handled_times ds)"

fun gw_event_times :: "gw_event \<Rightarrow> ghost_wheel \<Rightarrow> real list" where
  "gw_event_times (GwFrame videoReady r now) g =
     (if gw_arLoaded g \<and> videoReady then handled_times (detections r) else [])"
| "gw_event_times _ g = []"

fun gw_run_times :: "gw_event list \<Rightarrow> ghost_wheel \<Rightarrow> real list" where
  "gw_run_times [] g = []"
| "gw_run_times (e # es) g = gw_event_times e g @ gw_run_times es (gw_step e g)"

section \<open>Concrete inputs\<close>

text \<open>
  A stand-in for \<open>Euler.setFromRotationMatrix\<close>, a detection of marker 7 with the
  identity pose, a detection of marker 7 with an empty pose array, and the page after
  the recognizer has loaded and one frame has seen marker 7.
\<close>

definition zero_euler :: "matrix4 \<Rightarrow> euler" where
  "zero_euler mat = (Num 0, Num 0, Num 0)"

definition marker7 :: marker_event where
  "marker7 = \<lparr>idMatrix = 7, matrixGL_RH = PoseArray identity4\<rparr>"

definition marker7_empty :: marker_event where
  "marker7_empty = \<lparr>idMatrix = 7, matrixGL_RH = PoseArray []\<rparr>"

definition no_marker :: marker_event where
  "no_marker = \<lparr>idMatrix = - 1, matrixGL_RH = PoseMissing\<rparr>"

definition sees_marker7 :: recognition where
  "sees_marker7 = \<lparr>detections = [(40, marker7)], fails = False\<rparr>"

definition loaded_page :: world where
  "loaded_page =
     page_step zero_euler ControllerLoaded (page_step zero_euler ControllerCreated world_init)"

definition anchored_page :: world where
  "anchored_page = page_step zero_euler (Frame 40 sees_marker7) loaded_page"

text \<open>
  For the class: an instance with the recognizer and a car loaded, the same instance
  with the marker in view, and two messages, one below and one above the confidence
  threshold.
\<close>

definition plain_mesh :: car_mesh where
  "plain_mesh = \<lparr>mesh_x = 0, mesh_y = 0, mesh_z = 0, mesh_rotation_y = 0\<rparr>"

definition gw_ready :: ghost_wheel where
  "gw_ready = gw_step (GwCarLoaded plain_mesh) (gw_step GwARLoaded GhostWheelAR_init)"

definition gw_tracking :: ghost_wheel where
  "gw_tracking = gw_step (GwFrame True sees_marker7 50) gw_ready"

definition unsure_message :: steering_data where
  "unsure_message = \<lparr>steering_angle = Some 30, confidence = Some 0.5\<rparr>"

definition sure_message :: steering_data where
  "sure_message = \<lparr>steering_angle = Some 30, confidence = Some 0.9\<rparr>"

definition sees_nothing :: recognition where
  "sees_nothing = \<lparr>detections = [(300, no_marker)], fails = False\<rparr>"


definition turning_car :: car_system where
  "turning_car =
     (carSystem_init_in double_arith)\<lparr>velocity_z := num_lit double_arith 0.2,
                                         rotation := num_lit double_arith 0.1,
                                         speed := num_lit double_arith 0.2,
                                         keys := no_keys\<lparr>left := True, right := True\<rparr>\<rparr>"



definition recognizer_throws :: recognition where
  "recognizer_throws = \<lparr>detections = [], fails = True\<rparr>"

section \<open>Properties of the car\<close>



lemma applyBraking_frame:
  "position_x (applyBraking c) = position_x c"
  "position_z (applyBraking c) = position_z c"
  "rotation (applyBraking c) = rotation c"
  "speed (applyBraking c) = speed c"
  "acceleration (applyBraking c) = acceleration c"
  "maxSpeed (applyBraking c) = maxSpeed c"
  "turnSpeed (applyBraking c) = turnSpeed c"
  "friction (applyBraking c) = friction c"
  "brakeForce (applyBraking c) = brakeForce c"
  "keys (applyBraking c) = keys c"
  "car_system.more (applyBraking c) = car_system.more c"
  by (simp_all add: applyBraking_def)

lemma applyBraking_velocity:
  "velocity_x (applyBraking c) = (if brake (keys c) then velocity_x c * brakeForce c else velocity_x c)"
  "velocity_z (applyBraking c) = (if brake (keys c) then velocity_z c * brakeForce c else velocity_z c)"
  by (simp_all add: applyBraking_def)

lemma updateRotation_frame:
  "position_x (updateRotation c) = position_x c"
  "position_z (updateRotation c) = position_z c"
  "velocity_x (updateRotation c) = velocity_x c"
  "velocity_z (updateRotation c) = velocity_z c"
  "speed (updateRotation c) = speed c"
  "acceleration (updateRotation c) = acceleration c"
  "maxSpeed (updateRotation c) = maxSpeed c"
  "turnSpeed (updateRotation c) = turnSpeed c"
  "friction (updateRotation c) = friction c"
  "brakeForce (updateRotation c) = brakeForce c"
  "keys (updateRotation c) = keys c"
  "car_system.more (updateRotation c) = car_system.more c"
  by (simp_all add: updateRotation_def Let_def)

lemma updateRotation_rotation:
  "rotation (updateRotation c) =
     rotation c
     + (if left (keys c) \<and> \<bar>speed c\<bar> > 0.01 then turnSpeed c * sgn (speed c) else 0)
     - (if right (keys c) \<and> \<bar>speed c\<bar> > 0.01 then turnSpeed c * sgn (speed c) else 0)"
  by (auto simp: updateRotation_def Let_def)

lemma applyAcceleration_frame:
  "position_x (applyAcceleration a c) = position_x c"
  "position_z (applyAcceleration a c) = position_z c"
  "rotation (applyAcceleration a c) = rotation c"
  "speed (applyAcceleration a c) = speed c"
  "acceleration (applyAcceleration a c) = acceleration c"
  "maxSpeed (applyAcceleration a c) = maxSpeed c"
  "turnSpeed (applyAcceleration a c) = turnSpeed c"
  "friction (applyAcceleration a c) = friction c"
  "brakeForce (applyAcceleration a c) = brakeForce c"
  "keys (applyAcceleration a c) = keys c"
  "car_system.more (applyAcceleration a c) = car_system.more c"
  by (simp_all add: applyAcceleration_def Let_def)

lemma applyAcceleration_velocity:
  "velocity_x (applyAcceleration a c) = velocity_x c + a * sin (rotation c)"
  "velocity_z (applyAcceleration a c) = velocity_z c + a * cos (rotation c)"
  by (simp_all add: applyAcceleration_def Let_def)

lemma applyFriction_frame:
  "position_x (applyFriction c) = position_x c"
  "position_z (applyFriction c) = position_z c"
  "rotation (applyFriction c) = rotation c"
  "speed (applyFriction c) = speed c"
  "acceleration (applyFriction c) = acceleration c"
  "maxSpeed (applyFriction c) = maxSpeed c"
  "turnSpeed (applyFriction c) = turnSpeed c"
  "friction (applyFriction c) = friction c"
  "brakeForce (applyFriction c) = brakeForce c"
  "keys (applyFriction c) = keys c"
  "car_system.more (applyFriction c) = car_system.more c"
  by (simp_all add: applyFriction_def)

lemma applyFriction_velocity:
  "velocity_x (applyFriction c) = velocity_x c * friction c"
  "velocity_z (applyFriction c) = velocity_z c * friction c"
  by (simp_all add: applyFriction_def)

lemma limitSpeed_frame:
  "position_x (limitSpeed c) = position_x c"
  "position_z (limitSpeed c) = position_z c"
  "rotation (limitSpeed c) = rotation c"
  "acceleration (limitSpeed c) = acceleration c"
  "maxSpeed (limitSpeed c) = maxSpeed c"
  "turnSpeed (limitSpeed c) = turnSpeed c"
  "friction (limitSpeed c) = friction c"
  "brakeForce (limitSpeed c) = brakeForce c"
  "keys (limitSpeed c) = keys c"
  "car_system.more (limitSpeed c) = car_system.more c"
  by (simp_all add: limitSpeed_def Let_def)

lemma updatePosition_frame:
  "velocity_x (updatePosition c) = velocity_x c"
  "velocity_z (updatePosition c) = velocity_z c"
  "rotation (updatePosition c) = rotation c"
  "speed (updatePosition c) = speed c"
  "acceleration (updatePosition c) = acceleration c"
  "maxSpeed (updatePosition c) = maxSpeed c"
  "turnSpeed (updatePosition c) = turnSpeed c"
  "friction (updatePosition c) = friction c"
  "brakeForce (updatePosition c) = brakeForce c"
  "keys (updatePosition c) = keys c"
  "car_system.more (updatePosition c) = car_system.more c"
  by (simp_all add: updatePosition_def)

lemma updatePosition_position:
  "position_x (updatePosition c) = position_x c + velocity_x c"
  "position_z (updatePosition c) = position_z c + velocity_z c"
  by (simp_all add: updatePosition_def)

lemmas step_frames = applyBraking_frame updateRotation_frame applyAcceleration_frame
  applyFriction_frame limitSpeed_frame updatePosition_frame

lemma updateCarPhysics_limit:
  "updateCarPhysics c = updatePosition (limitSpeed (beforeLimit c))"
  by (simp add: updateCarPhysics_def beforeLimit_def Let_def)

lemma beforeLimit_frame:
  "maxSpeed (beforeLimit c) = maxSpeed c"
  "keys (beforeLimit c) = keys c"
  "speed (beforeLimit c) = speed c"
  "position_x (beforeLimit c) = position_x c"
  "position_z (beforeLimit c) = position_z c"
  by (simp_all add: beforeLimit_def Let_def step_frames)



lemma limitSpeed_within:
  assumes "vmag c \<le> maxSpeed c"
  shows "velocity_x (limitSpeed c) = velocity_x c"
    and "velocity_z (limitSpeed c) = velocity_z c"
    and "vmag (limitSpeed c) = vmag c"
    and "speed (limitSpeed c) = vmag c"
  using assms by (simp_all add: limitSpeed_def vmag_def Let_def)

lemma drive_step:
  assumes "0 \<le> v" and "v \<le> 0.228"
  shows "updateCarPhysics (drive_start\<lparr>position_z := p, velocity_z := v, speed := v\<rparr>)
         = drive_start\<lparr>position_z := p + 0.95 * (v + 0.012),
                       velocity_z := 0.95 * (v + 0.012), speed := 0.95 * (v + 0.012)\<rparr>"
proof -
  let ?s = "drive_start\<lparr>position_z := p, velocity_z := v, speed := v\<rparr>"
  let ?b = "beforeLimit ?s"
  have bx: "velocity_x ?b = 0"
    by (simp add: beforeLimit_def Let_def step_frames applyFriction_velocity
        applyAcceleration_velocity applyBraking_velocity updateRotation_rotation
        inputAcceleration_def drive_start_def forward_only_def no_keys_def carSystem_init_def)
  have bz: "velocity_z ?b = 0.95 * (v + 0.012)"
    by (simp add: beforeLimit_def Let_def step_frames applyFriction_velocity
        applyAcceleration_velocity applyBraking_velocity updateRotation_rotation
        inputAcceleration_def drive_start_def forward_only_def no_keys_def carSystem_init_def)
  have mag: "vmag ?b = 0.95 * (v + 0.012)"
    using assms(1) by (simp add: vmag_def bx bz)
  have ms: "maxSpeed ?b = 0.4"
    by (simp add: beforeLimit_frame drive_start_def carSystem_init_def)
  have small: "vmag ?b \<le> maxSpeed ?b"
    unfolding mag ms using assms(2) by simp
  note lim = limitSpeed_within [OF small, unfolded mag bx bz]
  show ?thesis
    by (rule car_system.equality)
      (simp_all add: updateCarPhysics_limit updatePosition_frame updatePosition_position
        limitSpeed_frame lim beforeLimit_frame,
       simp_all add: beforeLimit_def Let_def step_frames updateRotation_rotation
        drive_start_def forward_only_def no_keys_def carSystem_init_def)
qed

lemma pow95_10: "(19 / 20 :: real) ^ 10 \<le> 3 / 5"
  by (simp add: power_divide)

lemma pow95_100: "(0.95 :: real) ^ 100 \<le> 0.01"
proof -
  have "(0.95 :: real) ^ 100 = ((19 / 20) ^ 10) ^ 10"
    by (simp only: power_mult [symmetric]) simp
  also have "\<dots> \<le> (3 / 5) ^ 10"
    by (rule power_mono [OF pow95_10]) simp
  also have "\<dots> \<le> 0.01"
    by (simp add: power_divide)
  finally show ?thesis .
qed

lemma cruise_next:
  "0.95 * (0.228 * (1 - q) + 0.012) = 0.228 * (1 - 0.95 * q)" for q :: real
  by simp

lemma cruise_range:
  "0 < q \<Longrightarrow> q \<le> 1 \<Longrightarrow> 0 \<le> 0.228 * (1 - q) \<and> 0.228 * (1 - q) \<le> 0.228" for q :: real
  by (simp add: algebra_simps)

lemma cruise_below_limit: "0 < q \<Longrightarrow> 0.228 * (1 - q) < 0.4" for q :: real
  by (simp add: algebra_simps)

lemma far_from_claimed_value:
  "0 < q \<Longrightarrow> \<not> \<bar>0.228 * (1 - q) - 0.24\<bar> \<le> 0.01 * 0.24" for q :: real
  by (simp add: algebra_simps abs_if)

lemma near_fixed_point:
  "0 < q \<Longrightarrow> q \<le> 0.01 \<Longrightarrow> \<bar>0.228 * (1 - q) - 0.228\<bar> \<le> 0.01 * 0.228" for q :: real
  by (simp add: algebra_simps abs_if)

lemma drive_steps:
  "\<exists>p. (updateCarPhysics ^^ n) drive_start
        = drive_start\<lparr>position_z := p,
                      velocity_z := 0.228 * (1 - 0.95 ^ n),
                      speed := 0.228 * (1 - 0.95 ^ n)\<rparr>"
proof (induction n)
  case 0
  have "drive_start = drive_start\<lparr>position_z := 0, velocity_z := 0, speed := 0\<rparr>"
    by (simp add: drive_start_def carSystem_init_def)
  then show ?case by auto
next
  case (Suc n)
  define v :: real where "v = 0.228 * (1 - 0.95 ^ n)"
  from Suc obtain p where st: "(updateCarPhysics ^^ n) drive_start
        = drive_start\<lparr>position_z := p, velocity_z := v, speed := v\<rparr>"
    unfolding v_def by blast
  have q0: "0 < (0.95 :: real) ^ n" by simp
  have q1: "(0.95 :: real) ^ n \<le> 1" by (rule power_le_one) simp_all
  have rng: "0 \<le> v \<and> v \<le> 0.228"
    unfolding v_def by (rule cruise_range [OF q0 q1])
  have nxt: "0.95 * (v + 0.012) = 0.228 * (1 - 0.95 ^ Suc n)"
    unfolding v_def power_Suc by (rule cruise_next)
  have "(updateCarPhysics ^^ Suc n) drive_start
        = updateCarPhysics (drive_start\<lparr>position_z := p, velocity_z := v, speed := v\<rparr>)"
    by (simp add: st)
  also have "\<dots> = drive_start\<lparr>position_z := p + 0.95 * (v + 0.012),
                       velocity_z := 0.95 * (v + 0.012), speed := 0.95 * (v + 0.012)\<rparr>"
    using rng by (intro drive_step) simp_all
  finally show ?case unfolding nxt by blast
qed

lemma drive_speed: "speed ((updateCarPhysics ^^ n) drive_start) = 0.228 * (1 - 0.95 ^ n)"
proof -
  obtain p where "(updateCarPhysics ^^ n) drive_start
        = drive_start\<lparr>position_z := p,
                      velocity_z := 0.228 * (1 - 0.95 ^ n),
                      speed := 0.228 * (1 - 0.95 ^ n)\<rparr>"
    using drive_steps by blast
  then show ?thesis by simp
qed

lemma round_even_near:
  assumes "\<bar>z - of_int m\<bar> < 1 / 2"
  shows "round_even z = m"
proof -
  have r: "round z = m" using assms by (rule round_unique')
  have "z - of_int \<lfloor>z\<rfloor> \<noteq> 1 / 2"
  proof
    assume t: "z - of_int \<lfloor>z\<rfloor> = 1 / 2"
    then have "z = of_int \<lfloor>z\<rfloor> + 1 / 2" by simp
    with assms have "\<bar>of_int \<lfloor>z\<rfloor> + 1 / 2 - real_of_int m\<bar> < 1 / 2" by simp
    then have "\<bar>real_of_int (2 * (\<lfloor>z\<rfloor> - m) + 1)\<bar> < 1" by (simp add: abs_if split: if_splits)
    then have "\<bar>2 * (\<lfloor>z\<rfloor> - m) + 1\<bar> < 1" by linarith
    then show False by presburger
  qed
  with r show ?thesis by (simp add: round_even_def)
qed

lemma two_powr_diff:
  "2 powr (real_of_int (int n - int k)) = 2 ^ n / 2 ^ k"
proof -
  have "2 powr (real_of_int (int n - int k)) = 2 powr (real n - real k)" by simp
  also have "\<dots> = 2 powr (real n) / 2 powr (real k)" by (rule powr_diff)
  also have "\<dots> = 2 ^ n / 2 ^ k" by (simp add: powr_realpow)
  finally show ?thesis .
qed

lemma to_double_scaled:
  fixes x :: real and k :: nat
  assumes lo: "2 ^ 52 \<le> x * 2 ^ k" and hi: "x * 2 ^ k < 2 ^ 53"
  shows "to_double x = of_int (round_even (x * 2 ^ k)) / 2 ^ k"
proof -
  have p: "(0::real) < 2 ^ k" by simp
  have "(0::real) < 2 ^ 52" by simp
  with lo have "0 < x * 2 ^ k" by linarith
  with p have xpos: "0 < x" by (simp add: zero_less_mult_iff)
  have a: "2 powr (real_of_int (int 52 - int k)) \<le> x"
    unfolding two_powr_diff using lo p by (simp only: pos_divide_le_eq)
  have b: "x < 2 powr (real_of_int (int 53 - int k))"
    unfolding two_powr_diff using hi p by (simp only: pos_less_divide_eq)
  have "int 53 - int k = (int 52 - int k) + 1" by simp
  with b have b': "x < 2 powr (real_of_int ((int 52 - int k) + 1))" by simp
  have fl: "\<lfloor>log 2 \<bar>x\<bar>\<rfloor> = int 52 - int k"
    using xpos a b' floor_log_eq_powr_iff [of x 2 "int 52 - int k"] by simp
  have e: "(2::real) powr (of_int \<lfloor>log 2 \<bar>x\<bar>\<rfloor> - 52) = 1 / 2 ^ k"
  proof -
    have "of_int \<lfloor>log 2 \<bar>x\<bar>\<rfloor> - 52 = - real k" by (simp add: fl)
    then show ?thesis by (simp add: powr_minus_divide powr_realpow)
  qed
  from xpos show ?thesis
    unfolding to_double_def e by simp
qed

lemma to_double_near:
  fixes x :: real and m :: int and k :: nat
  assumes lo: "2 ^ 52 \<le> x * 2 ^ k" and hi: "x * 2 ^ k < 2 ^ 53"
    and near: "\<bar>x * 2 ^ k - of_int m\<bar> < 1 / 2"
  shows "to_double x = of_int m / 2 ^ k"
  using to_double_scaled [OF lo hi] round_even_near [OF near] by simp

lemma round_even_tie:
  assumes "z = of_int n + 1 / 2"
  shows "round_even z = (if even n then n else n + 1)"
proof -
  have "\<lfloor>z\<rfloor> = n" unfolding assms by (rule floor_unique) simp_all
  then show ?thesis by (simp add: round_even_def assms)
qed

lemma to_double_tie:
  fixes x :: real and n :: int and k :: nat
  assumes lo: "2 ^ 52 \<le> x * 2 ^ k" and hi: "x * 2 ^ k < 2 ^ 53"
    and tie: "x * 2 ^ k = of_int n + 1 / 2"
  shows "to_double x = of_int (if even n then n else n + 1) / 2 ^ k"
  using to_double_scaled [OF lo hi] round_even_tie [OF tie] by simp


lemma double_value_1: "to_double (2 / 5) = 3602879701896397 / 9007199254740992"
  using to_double_near [of "2 / 5" 54 7205759403792794] by simp

lemma double_value_2: "to_double (19 / 20) = 4278419646001971 / 4503599627370496"
  using to_double_near [of "19 / 20" 53 8556839292003942] by simp

lemma double_value_3: "to_double (1) = 1"
  using to_double_near [of "1" 52 4503599627370496] by simp

lemma double_value_4: "to_double (20) = 20"
  using to_double_near [of "20" 48 5629499534213120] by simp

lemma double_value_5: "to_double (21392098230009855 / 1125899906842624) = 19"
  using to_double_near [of "21392098230009855 / 1125899906842624" 48 5348024557502464] by simp

lemma double_value_6: "to_double (361) = 361"
  using to_double_near [of "361" 44 6350779162034176] by simp

lemma double_value_7: "to_double (19) = 19"
  using to_double_near [of "19" 48 5348024557502464] by simp

lemma double_value_8: "to_double (3602879701896397 / 171136785840078848) = 6068007918983405 / 288230376151711744"
  using to_double_near [of "3602879701896397 / 171136785840078848" 58 6068007918983405] by simp

lemma double_value_9: "to_double (115292150460684695 / 288230376151711744) = 7205759403792793 / 18014398509481984"
  using to_double_near [of "115292150460684695 / 288230376151711744" 54 7205759403792793] by simp

lemma double_value_10: "to_double (7205759403792793 / 18014398509481984) = 7205759403792793 / 18014398509481984"
  using to_double_near [of "7205759403792793 / 18014398509481984" 54 7205759403792793] by simp

lemma double_value_11: "to_double (11) = 11"
  using to_double_near [of "11" 49 6192449487634432] by simp

lemma double_value_12: "to_double (121) = 121"
  using to_double_near [of "121" 46 8514618045497344] by simp

lemma double_value_13: "to_double (3602879701896397 / 99079191802150912) = 5240552293667487 / 144115188075855872"
  using to_double_near [of "3602879701896397 / 99079191802150912" 57 5240552293667487] by simp

lemma double_value_14: "to_double (57646075230342357 / 144115188075855872) = 7205759403792795 / 18014398509481984"
  using to_double_near [of "57646075230342357 / 144115188075855872" 54 7205759403792795] by simp

lemma double_value_15: "to_double (7205759403792795 / 18014398509481984) = 7205759403792795 / 18014398509481984"
  using to_double_near [of "7205759403792795 / 18014398509481984" 54 7205759403792795] by simp

lemma double_value_16: "to_double (1 / 20) = 3602879701896397 / 72057594037927936"
  using to_double_near [of "1 / 20" 57 7205759403792794] by simp

lemma double_value_17: "to_double (1 / 10) = 3602879701896397 / 36028797018963968"
  using to_double_near [of "1 / 10" 56 7205759403792794] by simp

lemma double_value_18: "to_double (1 / 100) = 5764607523034235 / 576460752303423488"
  using to_double_near [of "1 / 100" 59 5764607523034235] by simp

lemma double_value_19: "to_double (3602879701896397 / 72057594037927936) = 3602879701896397 / 72057594037927936"
  using to_double_near [of "3602879701896397 / 72057594037927936" 57 7205759403792794] by simp

lemma double_value_20: "to_double (10808639105689191 / 72057594037927936) = 1351079888211149 / 9007199254740992"
  using to_double_tie [of "10808639105689191 / 72057594037927936" 55 5404319552844595] by simp

lemma double_value_21: "to_double (7205759403792795 / 72057594037927936) = 7205759403792795 / 72057594037927936"
  using to_double_near [of "7205759403792795 / 72057594037927936" 56 7205759403792795] by simp

lemma double_value_22: "to_double (1 / 5) = 3602879701896397 / 18014398509481984"
  using to_double_near [of "1 / 5" 55 7205759403792794] by simp

lemmas double_values = double_value_1 double_value_2 double_value_3 double_value_4 double_value_5 double_value_6 double_value_7 double_value_8 double_value_9 double_value_10 double_value_11 double_value_12 double_value_13 double_value_14 double_value_15 double_value_16 double_value_17 double_value_18 double_value_19 double_value_20 double_value_21 double_value_22

















lemma double_ops:
  "num_lit double_arith x = to_double x"
  "num_add double_arith x y = to_double (x + y)"
  "num_sub double_arith x y = to_double (x - y)"
  "num_mul double_arith x y = to_double (x * y)"
  "num_div double_arith x y = to_double (x / y)"
  "num_sqrt double_arith x = to_double (sqrt x)"
  "num_sqr double_arith x = to_double (x * x)"
  "num_sin double_arith x = to_double (sin x)"
  "num_cos double_arith x = to_double (cos x)"
  by (simp_all add: double_arith_def)










lemma exact_init: "carSystem_init_in exact_arith = carSystem_init"
  by (simp add: carSystem_init_in_def carSystem_init_def exact_arith_def)

























text \<open>
  With both steer keys held the two adjustments of the heading are made one after the
  other. In doubles they need not cancel: from the heading 0.1 the heading becomes
  0.15000000000000002 and then 0.10000000000000002.
\<close>

lemma steer_keys_do_not_cancel:
  "rotation turning_car = 3602879701896397 / 36028797018963968 \<and>
   rotation (updateRotation_in double_arith turning_car)
     = 7205759403792795 / 72057594037927936"
  by (simp add: turning_car_def updateRotation_in_def Let_def carSystem_init_in_def no_keys_def
      double_ops double_values)







text \<open>
  Claim C7 as stated fails: after 100 calls from rest with only forward held, the speed
  is not within 1 percent of 0.24.
\<close>

theorem cruise_speed_not_near_024:
  "\<not> \<bar>speed ((updateCarPhysics ^^ 100) drive_start) - 0.24\<bar> \<le> 0.01 * 0.24"
proof -
  have "0 < (0.95 :: real) ^ 100" by simp
  then show ?thesis
    unfolding drive_speed by (rule far_from_claimed_value)
qed

text \<open>
  Claim C7, amended. Friction multiplies the velocity after the acceleration has been
  added, so the fixed point is \<open>friction * acceleration / (1 - friction) = 0.228\<close>.
  After 100 calls from rest with only forward held the speed is within 1 percent of
  0.228, and after any number of calls it is below \<open>maxSpeed\<close>, so the limit never
  acts.
\<close>

theorem cruise_speed_near_0228:
  "\<bar>speed ((updateCarPhysics ^^ 100) drive_start) - 0.228\<bar> \<le> 0.01 * 0.228
   \<and> (\<forall>n. speed ((updateCarPhysics ^^ n) drive_start) < maxSpeed drive_start)"
proof -
  have pos: "0 < (0.95 :: real) ^ n" for n by simp
  have first: "\<bar>speed ((updateCarPhysics ^^ 100) drive_start) - 0.228\<bar> \<le> 0.01 * 0.228"
    unfolding drive_speed by (rule near_fixed_point [OF pos pow95_100])
  have ms: "maxSpeed drive_start = 0.4"
    by (simp add: drive_start_def carSystem_init_def)
  have "speed ((updateCarPhysics ^^ n) drive_start) < maxSpeed drive_start" for n
    unfolding drive_speed ms by (rule cruise_below_limit [OF pos])
  with first show ?thesis by blast
qed



section \<open>Properties of the anchor\<close>

lemma sentinel_is_ignored:
  "idMatrix ev = - 1 \<Longrightarrow> handleMarkerDetection E t ev a = Inr a"
  by (simp add: handleMarkerDetection_def)

lemma detection_not_searching:
  "\<not> searchingForMarker a \<Longrightarrow> handleMarkerDetection E t ev a = Inr a"
  by (simp add: handleMarkerDetection_def)

lemma detection_missing:
  "idMatrix ev \<noteq> - 1 \<Longrightarrow> searchingForMarker a \<Longrightarrow> matrixGL_RH ev = PoseMissing
   \<Longrightarrow> handleMarkerDetection E t ev a = Inl TypeError"
  by (simp add: handleMarkerDetection_def updatePlaneReference_def)

lemma detection_accepts:
  assumes "idMatrix ev \<noteq> - 1" and "searchingForMarker a"
    and "matrixGL_RH ev = PoseArray m" and "fixMatrix (PoseArray m) = Inr M"
  shows "handleMarkerDetection E t ev a =
           Inr (a\<lparr>planeMatrix := M, planePosition := setFromMatrixPosition M,
                  planeRotation := E M, initialized := True,
                  markerDetected := True, lastDetectionTime := t,
                  planeEstablished := True, searchingForMarker := False\<rparr>)"
  using assms
  by (simp add: handleMarkerDetection_def updatePlaneReference_def Let_def)

lemma detection_flags:
  assumes "handleMarkerDetection E t ev a = Inr a1"
    and "searchingForMarker a = (\<not> planeEstablished a)"
  shows "searchingForMarker a1 = (\<not> planeEstablished a1)"
  using assms
  by (auto simp: handleMarkerDetection_def updatePlaneReference_def Let_def
      split: if_splits sum.splits)

lemma dispatch_flags:
  "searchingForMarker a = (\<not> planeEstablished a) \<Longrightarrow>
   searchingForMarker (fst (dispatch E ds a)) = (\<not> planeEstablished (fst (dispatch E ds a)))"
proof (induction ds arbitrary: a)
  case Nil
  then show ?case by simp
next
  case (Cons d ds)
  obtain t ev where d: "d = (t, ev)" by (cases d)
  show ?case
  proof (cases "handleMarkerDetection E t ev a")
    case (Inl e)
    with Cons.prems d show ?thesis by simp
  next
    case (Inr a1)
    from detection_flags [OF Inr Cons.prems] Cons.IH [of a1] Inr d show ?thesis by simp
  qed
qed

lemma process_state: "fst (process E r a) = fst (dispatch E (detections r) a)"
  by (simp add: process_def split: prod.splits option.splits)

lemma process_flags:
  "searchingForMarker a = (\<not> planeEstablished a) \<Longrightarrow>
   searchingForMarker (fst (process E r a)) = (\<not> planeEstablished (fst (process E r a)))"
  unfolding process_state by (rule dispatch_flags)

lemma updateCarPhysics_page_arSystem: "arSystem (updateCarPhysics_page w) = arSystem w"
  by (simp add: updateCarPhysics_page_def Let_def)

lemma updateContainerTransform_arSystem: "arSystem (updateContainerTransform w) = arSystem w"
  by (simp add: updateContainerTransform_def)

lemma renderLoop_arSystem:
  "arSystem (fst (renderLoop E t r w)) =
     (if shouldProcessAR t w then fst (process E r (arSystem w)) else arSystem w)"
  by (simp add: renderLoop_def Let_def updateCarPhysics_page_arSystem
      updateContainerTransform_arSystem split: prod.splits option.splits)

lemma page_step_flags:
  assumes "searchingForMarker (arSystem w) = (\<not> planeEstablished (arSystem w))"
  shows "searchingForMarker (arSystem (page_step E ev w))
           = (\<not> planeEstablished (arSystem (page_step E ev w)))"
proof (cases ev)
  case (Frame t r)
  then show ?thesis
    using assms process_flags [OF assms, of E r]
    by (simp add: renderLoop_arSystem)
qed (use assms in \<open>simp_all add: keydown_def keyup_def resetCarPosition_def
      setupFallbackCamera_def Let_def\<close>)

lemma reachable_flags:
  "reachable E w \<Longrightarrow> searchingForMarker (arSystem w) = (\<not> planeEstablished (arSystem w))"
proof (induction rule: reachable.induct)
  case start
  show ?case by (simp add: world_init_def arSystem_init_def)
next
  case (step w ev)
  then show ?case by (simp add: page_step_flags)
qed

lemma fixMatrix_identity:
  "fixMatrix (PoseArray identity4) =
     Inr (map Num [1, 0, 0, 0,  0, 0, - 1, 0,  0, 1, 0, 0,  0, 0, 0, 1])"
  by (simp add: identity4_def js_index_def)

lemma fixMatrix_empty:
  "fixMatrix (PoseArray []) =
     Inr [Undefined, Undefined, NaN, Undefined,
          Undefined, Undefined, NaN, Undefined,
          Undefined, Undefined, NaN, Undefined,
          Undefined, Undefined, NaN, Undefined]"
  by (simp add: js_index_def)

lemma loaded_page_fields:
  "arSystem loaded_page = arSystem_init"
  "arLoaded loaded_page" "arController loaded_page"
  "lastProcessTime loaded_page = 0"
  by (simp_all add: loaded_page_def world_init_def)

lemma reachable_loaded_page: "reachable zero_euler loaded_page"
  unfolding loaded_page_def by (intro reachable.intros)

lemma reachable_anchored_page: "reachable zero_euler anchored_page"
  unfolding anchored_page_def by (intro reachable.step reachable_loaded_page)

lemma loaded_page_gate: "shouldProcessAR 40 loaded_page"
  by (simp add: shouldProcessAR_def loaded_page_fields arSystem_init_def processingInterval_def)

lemma anchored_page_arSystem:
  "arSystem anchored_page =
     \<lparr>markerDetected = True, lastDetectionTime = 40,
      planeMatrix = map Num [1, 0, 0, 0,  0, 0, - 1, 0,  0, 1, 0, 0,  0, 0, 0, 1],
      planePosition = (Num 0, Num 0, Num 0),
      planeRotation = (Num 0, Num 0, Num 0),
      initialized = True, planeEstablished = True, searchingForMarker = False\<rparr>"
proof -
  have m: "idMatrix marker7 \<noteq> - 1" "matrixGL_RH marker7 = PoseArray identity4"
    by (simp_all add: marker7_def)
  have s: "searchingForMarker arSystem_init" by (simp add: arSystem_init_def)
  have "arSystem anchored_page = fst (process zero_euler sees_marker7 arSystem_init)"
    by (simp add: anchored_page_def renderLoop_arSystem loaded_page_gate loaded_page_fields)
  also have "\<dots> = fst (dispatch zero_euler [(40, marker7)] arSystem_init)"
    by (simp add: process_state sees_marker7_def)
  also have "\<dots> = arSystem_init\<lparr>planeMatrix := map Num [1, 0, 0, 0,  0, 0, - 1, 0,  0, 1, 0, 0,  0, 0, 0, 1],
                  planePosition := setFromMatrixPosition (map Num [1, 0, 0, 0,  0, 0, - 1, 0,  0, 1, 0, 0,  0, 0, 0, 1]),
                  planeRotation := zero_euler (map Num [1, 0, 0, 0,  0, 0, - 1, 0,  0, 1, 0, 0,  0, 0, 0, 1]), initialized := True,
                  markerDetected := True, lastDetectionTime := 40,
                  planeEstablished := True, searchingForMarker := False\<rparr>"
    by (simp add: detection_accepts [OF m(1) s m(2) fixMatrix_identity])
  also have "\<dots> = \<lparr>markerDetected = True, lastDetectionTime = 40,
      planeMatrix = map Num [1, 0, 0, 0,  0, 0, - 1, 0,  0, 1, 0, 0,  0, 0, 0, 1],
      planePosition = (Num 0, Num 0, Num 0),
      planeRotation = (Num 0, Num 0, Num 0),
      initialized = True, planeEstablished = True, searchingForMarker = False\<rparr>"
    by (simp add: arSystem_init_def setFromMatrixPosition_def js_index_def zero_euler_def)
  finally show ?thesis .
qed

lemma renderLoop_called: "snd (renderLoop E t r w) = shouldProcessAR t w"
  by (simp add: renderLoop_def Let_def)

text \<open>
  Claim C3. In every state the page can reach in which the plane is established, a
  detection with a valid id and any pose leaves the whole anchor state as it is. And
  from a searching state, a valid detection followed by a second valid detection leaves
  the anchor equal to the conversion of the first pose, in the phase Anchored.
\<close>

theorem anchoring_is_one_shot:
  "(reachable E w \<and> planeEstablished (arSystem w) \<and> idMatrix ev \<noteq> - 1 \<longrightarrow>
      handleMarkerDetection E t ev (arSystem w) = Inr (arSystem w)) \<and>
   (searchingForMarker a \<and> idMatrix ev1 \<noteq> - 1 \<and> idMatrix ev2 \<noteq> - 1 \<and>
    matrixGL_RH ev1 = PoseArray m1 \<longrightarrow>
      (\<exists>a1. handleMarkerDetection E t1 ev1 a = Inr a1 \<and>
            handleMarkerDetection E t2 ev2 a1 = Inr a1 \<and>
            fixMatrix (PoseArray m1) = Inr (planeMatrix a1) \<and>
            phase_of a1 = Anchored))"
proof -
  have first: "handleMarkerDetection E t ev (arSystem w) = Inr (arSystem w)"
    if "reachable E w" and "planeEstablished (arSystem w)"
  proof -
    from reachable_flags [OF that(1)] that(2) have "\<not> searchingForMarker (arSystem w)"
      by simp
    then show ?thesis by (rule detection_not_searching)
  qed
  have second: "\<exists>a1. handleMarkerDetection E t1 ev1 a = Inr a1 \<and>
            handleMarkerDetection E t2 ev2 a1 = Inr a1 \<and>
            fixMatrix (PoseArray m1) = Inr (planeMatrix a1) \<and>
            phase_of a1 = Anchored"
    if s: "searchingForMarker a" and i: "idMatrix ev1 \<noteq> - 1"
      and p: "matrixGL_RH ev1 = PoseArray m1"
  proof -
    obtain M where M: "fixMatrix (PoseArray m1) = Inr M" by simp
    let ?a1 = "a\<lparr>planeMatrix := M, planePosition := setFromMatrixPosition M,
                  planeRotation := E M, initialized := True,
                  markerDetected := True, lastDetectionTime := t1,
                  planeEstablished := True, searchingForMarker := False\<rparr>"
    have "handleMarkerDetection E t1 ev1 a = Inr ?a1"
      by (rule detection_accepts [OF i s p M])
    moreover have "handleMarkerDetection E t2 ev2 ?a1 = Inr ?a1"
      by (rule detection_not_searching) simp
    moreover have "fixMatrix (PoseArray m1) = Inr (planeMatrix ?a1)"
      using M by simp
    moreover have "phase_of ?a1 = Anchored"
      by (simp add: phase_of_def)
    ultimately show ?thesis by blast
  qed
  from first second show ?thesis by blast
qed

text \<open>
  Claim C3 at the page anchored by marker 7 with the identity pose, followed by a
  detection of marker 7 with another pose.
\<close>

theorem anchoring_is_one_shot_witness:
  "reachable zero_euler anchored_page \<and> planeEstablished (arSystem anchored_page) \<and>
   idMatrix marker7_empty \<noteq> - 1 \<and>
   handleMarkerDetection zero_euler 80 marker7_empty (arSystem anchored_page)
     = Inr (arSystem anchored_page) \<and>
   searchingForMarker arSystem_init \<and> idMatrix marker7 \<noteq> - 1 \<and>
   matrixGL_RH marker7 = PoseArray identity4 \<and>
   (\<exists>a1. handleMarkerDetection zero_euler 40 marker7 arSystem_init = Inr a1 \<and>
         handleMarkerDetection zero_euler 80 marker7_empty a1 = Inr a1 \<and>
         fixMatrix (PoseArray identity4) = Inr (planeMatrix a1) \<and>
         phase_of a1 = Anchored)"
proof -
  have h1: "reachable zero_euler anchored_page \<and> planeEstablished (arSystem anchored_page) \<and>
            idMatrix marker7_empty \<noteq> - 1"
    by (simp add: reachable_anchored_page anchored_page_arSystem marker7_empty_def)
  have h2: "searchingForMarker arSystem_init \<and> idMatrix marker7 \<noteq> - 1 \<and>
            idMatrix marker7_empty \<noteq> - 1 \<and> matrixGL_RH marker7 = PoseArray identity4"
    by (simp add: arSystem_init_def marker7_def marker7_empty_def)
  from anchoring_is_one_shot [of zero_euler anchored_page marker7_empty 80
      arSystem_init marker7 marker7_empty identity4 40 80] h1 h2
  show ?thesis by blast
qed

text \<open>
  Claim C4 as stated fails: after a reset of the anchored page, \<open>planeMatrix\<close> is not
  the matrix the page started with.
\<close>

theorem reset_keeps_planeMatrix_counterexample:
  "planeMatrix (arSystem (resetCarPosition anchored_page)) \<noteq> planeMatrix arSystem_init"
  by (simp add: resetCarPosition_def anchored_page_arSystem arSystem_init_def identity4_def)

text \<open>
  Claim C4, amended. From any state, \<open>resetCarPosition\<close> ends in the phase Searching
  with the flags \<open>planeEstablished\<close>, \<open>markerDetected\<close> and \<open>initialized\<close> cleared and
  \<open>searchingForMarker\<close> set; \<open>planeMatrix\<close> keeps its value, and the next
  \<open>updateContainerTransform\<close> hides the container. The car is at the origin with zero
  velocity, heading and speed.
\<close>

theorem reset_returns_to_searching:
  "phase_of (arSystem (resetCarPosition w)) = Searching \<and>
   searchingForMarker (arSystem (resetCarPosition w)) \<and>
   \<not> planeEstablished (arSystem (resetCarPosition w)) \<and>
   \<not> markerDetected (arSystem (resetCarPosition w)) \<and>
   \<not> initialized (arSystem (resetCarPosition w)) \<and>
   planeMatrix (arSystem (resetCarPosition w)) = planeMatrix (arSystem w) \<and>
   \<not> container_visible (updateContainerTransform (resetCarPosition w)) \<and>
   position_x (carSystem (resetCarPosition w)) = 0 \<and>
   position_z (carSystem (resetCarPosition w)) = 0 \<and>
   velocity_x (carSystem (resetCarPosition w)) = 0 \<and>
   velocity_z (carSystem (resetCarPosition w)) = 0 \<and>
   rotation (carSystem (resetCarPosition w)) = 0 \<and>
   speed (carSystem (resetCarPosition w)) = 0"
  by (simp add: resetCarPosition_def phase_of_def updateContainerTransform_def)

text \<open>
  Claim C5 as stated fails: a detection of marker 7 with a zero-length pose array,
  received while searching, is not rejected. Its missing entries are stored as
  \<open>undefined\<close> and \<open>NaN\<close>, and the plane is established.
\<close>

theorem empty_pose_is_stored_counterexample:
  "handleMarkerDetection zero_euler 40 marker7_empty arSystem_init =
     Inr \<lparr>markerDetected = True, lastDetectionTime = 40,
          planeMatrix = [Undefined, Undefined, NaN, Undefined,
                         Undefined, Undefined, NaN, Undefined,
                         Undefined, Undefined, NaN, Undefined,
                         Undefined, Undefined, NaN, Undefined],
          planePosition = (Undefined, Undefined, Undefined),
          planeRotation = (Num 0, Num 0, Num 0),
          initialized = True, planeEstablished = True, searchingForMarker = False\<rparr>"
proof -
  have m: "idMatrix marker7_empty \<noteq> - 1" "matrixGL_RH marker7_empty = PoseArray []"
    by (simp_all add: marker7_empty_def)
  have s: "searchingForMarker arSystem_init" by (simp add: arSystem_init_def)
  show ?thesis
    unfolding detection_accepts [OF m(1) s m(2) fixMatrix_empty]
    by (simp add: arSystem_init_def setFromMatrixPosition_def js_index_def zero_euler_def)
qed

text \<open>
  Claim C5, amended. A detection whose id is \<open>-1\<close> leaves the anchor state as it is,
  in every phase and for every payload. A detection with a valid id received while
  searching is accepted whatever array it carries: the conversion of the array is
  stored and the phase becomes Anchored, without an exception. Only a payload that is
  no array at all makes the handler throw, before anything is written.
\<close>

theorem detection_sentinel_and_payload:
  "(idMatrix ev = - 1 \<longrightarrow> handleMarkerDetection E t ev a = Inr a) \<and>
   (idMatrix ev \<noteq> - 1 \<and> searchingForMarker a \<and> matrixGL_RH ev = PoseArray m \<longrightarrow>
      (\<exists>a1. handleMarkerDetection E t ev a = Inr a1 \<and>
            fixMatrix (PoseArray m) = Inr (planeMatrix a1) \<and>
            phase_of a1 = Anchored \<and> \<not> searchingForMarker a1)) \<and>
   (idMatrix ev \<noteq> - 1 \<and> searchingForMarker a \<and> matrixGL_RH ev = PoseMissing \<longrightarrow>
      handleMarkerDetection E t ev a = Inl TypeError)"
proof -
  have "\<exists>a1. handleMarkerDetection E t ev a = Inr a1 \<and>
            fixMatrix (PoseArray m) = Inr (planeMatrix a1) \<and>
            phase_of a1 = Anchored \<and> \<not> searchingForMarker a1"
    if i: "idMatrix ev \<noteq> - 1" and s: "searchingForMarker a"
      and p: "matrixGL_RH ev = PoseArray m"
  proof -
    obtain M where M: "fixMatrix (PoseArray m) = Inr M" by simp
    show ?thesis
      unfolding detection_accepts [OF i s p M] using M by (simp add: phase_of_def)
  qed
  then show ?thesis
    using sentinel_is_ignored [of ev E t a] detection_missing [of ev a E t] by blast
qed

text \<open>
  Claim C5, amended, at the sentinel event on the anchored page, at marker 7 with an
  empty array while searching, and at marker 7 without a pose while searching.
\<close>

theorem detection_sentinel_and_payload_witness:
  "idMatrix no_marker = - 1 \<and>
   handleMarkerDetection zero_euler 40 no_marker (arSystem anchored_page)
     = Inr (arSystem anchored_page) \<and>
   idMatrix marker7_empty \<noteq> - 1 \<and> searchingForMarker arSystem_init \<and>
   matrixGL_RH marker7_empty = PoseArray [] \<and>
   (\<exists>a1. handleMarkerDetection zero_euler 40 marker7_empty arSystem_init = Inr a1 \<and>
         fixMatrix (PoseArray []) = Inr (planeMatrix a1) \<and>
         phase_of a1 = Anchored \<and> \<not> searchingForMarker a1) \<and>
   idMatrix (marker7\<lparr>matrixGL_RH := PoseMissing\<rparr>) \<noteq> - 1 \<and>
   matrixGL_RH (marker7\<lparr>matrixGL_RH := PoseMissing\<rparr>) = PoseMissing \<and>
   handleMarkerDetection zero_euler 40 (marker7\<lparr>matrixGL_RH := PoseMissing\<rparr>) arSystem_init
     = Inl TypeError"
proof -
  have h: "idMatrix no_marker = - 1"
    "idMatrix marker7_empty \<noteq> - 1" "searchingForMarker arSystem_init"
    "matrixGL_RH marker7_empty = PoseArray []"
    "idMatrix (marker7\<lparr>matrixGL_RH := PoseMissing\<rparr>) \<noteq> - 1"
    "matrixGL_RH (marker7\<lparr>matrixGL_RH := PoseMissing\<rparr>) = PoseMissing"
    by (simp_all add: no_marker_def marker7_empty_def marker7_def arSystem_init_def)
  from h
    detection_sentinel_and_payload [where ev = no_marker and E = zero_euler and t = 40
      and a = "arSystem anchored_page"]
    detection_sentinel_and_payload [where ev = marker7_empty and E = zero_euler and t = 40
      and a = arSystem_init and m = "[]"]
    detection_sentinel_and_payload [where ev = "marker7\<lparr>matrixGL_RH := PoseMissing\<rparr>"
      and E = zero_euler and t = 40 and a = arSystem_init]
  show ?thesis by blast
qed

text \<open>
  Claim C6. A run of \<open>renderLoop\<close> in the phase Anchored never calls
  \<open>arController.process\<close>; a run that calls it is in the phase Searching and has passed
  the interval gate; and in every state the page can reach, the two flags the
  condition tests say exactly that the phase is Searching, and the call is made
  exactly when the recognizer is loaded, the phase is Searching and the gate passes.
\<close>

theorem recognition_only_while_searching:
  "(phase_of (arSystem w) = Anchored \<longrightarrow> \<not> snd (renderLoop E t r w)) \<and>
   (snd (renderLoop E t r w) \<longrightarrow>
      phase_of (arSystem w) = Searching \<and> t - lastProcessTime w \<ge> processingInterval) \<and>
   (reachable E w \<longrightarrow>
      (searchingForMarker (arSystem w) \<and> \<not> planeEstablished (arSystem w))
        = (phase_of (arSystem w) = Searching) \<and>
      snd (renderLoop E t r w) =
        (arLoaded w \<and> arController w \<and> phase_of (arSystem w) = Searching \<and>
         t - lastProcessTime w \<ge> processingInterval))"
proof -
  have "searchingForMarker (arSystem w) = (phase_of (arSystem w) = Searching)"
    if "reachable E w"
    using reachable_flags [OF that] by (simp add: phase_of_def)
  then show ?thesis
    by (auto simp: renderLoop_called shouldProcessAR_def phase_of_def)
qed

text \<open>
  Claim C6 at the anchored page, where the call is not made, and at the loaded page
  at time 40, where it is.
\<close>

theorem recognition_only_while_searching_witness:
  "phase_of (arSystem anchored_page) = Anchored \<and>
   \<not> snd (renderLoop zero_euler 80 sees_marker7 anchored_page) \<and>
   reachable zero_euler loaded_page \<and>
   snd (renderLoop zero_euler 40 sees_marker7 loaded_page) \<and>
   phase_of (arSystem loaded_page) = Searching \<and>
   40 - lastProcessTime loaded_page \<ge> processingInterval"
proof -
  have a: "phase_of (arSystem anchored_page) = Anchored"
    by (simp add: anchored_page_arSystem phase_of_def)
  have b: "arLoaded loaded_page \<and> arController loaded_page \<and>
           phase_of (arSystem loaded_page) = Searching \<and>
           40 - lastProcessTime loaded_page \<ge> processingInterval"
    by (simp add: loaded_page_fields arSystem_init_def phase_of_def processingInterval_def)
  from a b reachable_loaded_page
    recognition_only_while_searching [where w = anchored_page and E = zero_euler
      and t = 80 and r = sees_marker7]
    recognition_only_while_searching [where w = loaded_page and E = zero_euler
      and t = 40 and r = sees_marker7]
  show ?thesis by blast
qed

section \<open>Properties of the gesture variant\<close>

lemma storeSteering_frame:
  "carPosition_x (storeSteering d g) = carPosition_x g"
  "carPosition_z (storeSteering d g) = carPosition_z g"
  "carRotation (storeSteering d g) = carRotation g"
  "car (storeSteering d g) = car g"
  "carSpeed (storeSteering d g) = carSpeed g"
  "markerVisible (storeSteering d g) = markerVisible g"
  "lastMarkerTime (storeSteering d g) = lastMarkerTime g"
  "gw_container_visible (storeSteering d g) = gw_container_visible g"
  "gw_arLoaded (storeSteering d g) = gw_arLoaded g"
  by (simp_all add: storeSteering_def Let_def)

lemma storeSteering_values:
  "handConfidence (storeSteering d g) = or_zero (confidence d)"
  "currentSteeringAngle (storeSteering d g) = or_zero (steering_angle d)"
  "smoothedSteering (storeSteering d g) =
     smoothedSteering g + (or_zero (steering_angle d) - smoothedSteering g) * steeringSmoothing g"
  by (simp_all add: storeSteering_def Let_def lerp_def algebra_simps)

lemma updateCarMovement_frame:
  "smoothedSteering (updateCarMovement g) = smoothedSteering g"
  "markerVisible (updateCarMovement g) = markerVisible g"
  "lastMarkerTime (updateCarMovement g) = lastMarkerTime g"
  "gw_container_visible (updateCarMovement g) = gw_container_visible g"
  "gw_arLoaded (updateCarMovement g) = gw_arLoaded g"
  by (simp_all add: updateCarMovement_def Let_def split: option.splits)

lemma updateCarMovement_values:
  "carRotation (updateCarMovement g) = carRotation g + degToRad (smoothedSteering g) * 0.02"
  "carPosition_x (updateCarMovement g)
     = carPosition_x g + sin (carRotation g + degToRad (smoothedSteering g) * 0.02) * carSpeed g"
  "carPosition_z (updateCarMovement g)
     = carPosition_z g + cos (carRotation g + degToRad (smoothedSteering g) * 0.02) * carSpeed g"
  by (simp_all add: updateCarMovement_def Let_def split: option.splits)

lemma handleHandTrackingData_gated:
  "handleHandTrackingData d g =
     (if or_zero (confidence d) > 0.7 \<and> car g \<noteq> None \<and> markerVisible g
      then updateCarMovement (storeSteering d g) else storeSteering d g)"
  by (simp add: handleHandTrackingData_def Let_def storeSteering_frame storeSteering_values)

lemma gw_detection_sentinel:
  "idMatrix ev = - 1 \<Longrightarrow> GhostWheelAR_handleMarkerDetection t ev g = Inr g"
  by (simp add: GhostWheelAR_handleMarkerDetection_def)

lemma gw_detection_missing:
  "idMatrix ev \<noteq> - 1 \<Longrightarrow> matrixGL_RH ev = PoseMissing
   \<Longrightarrow> GhostWheelAR_handleMarkerDetection t ev g = Inl TypeError"
  by (simp add: GhostWheelAR_handleMarkerDetection_def updateMarkerMatrix_def)

lemma gw_detection_accepts:
  assumes "idMatrix ev \<noteq> - 1" and "matrixGL_RH ev = PoseArray m"
    and "fixMatrix (PoseArray m) = Inr M"
  shows "GhostWheelAR_handleMarkerDetection t ev g =
           Inr (g\<lparr>gw_container_matrix := M, gw_container_visible := True,
                  lastMarkerTime := t, markerVisible := True\<rparr>)"
  using assms by (simp add: GhostWheelAR_handleMarkerDetection_def updateMarkerMatrix_def)

lemma gw_dispatch_effect:
  "lastMarkerTime (fst (GhostWheelAR_dispatch ds g)) = last (lastMarkerTime g # handled_times ds) \<and>
   gw_container_visible (fst (GhostWheelAR_dispatch ds g))
     = (gw_container_visible g \<or> handled_times ds \<noteq> []) \<and>
   gw_arLoaded (fst (GhostWheelAR_dispatch ds g)) = gw_arLoaded g"
proof (induction ds arbitrary: g)
  case Nil
  show ?case by simp
next
  case (Cons d ds)
  obtain t ev where d: "d = (t, ev)" by (cases d)
  show ?case
  proof (cases "idMatrix ev = - 1")
    case True
    with Cons.IH [of g] d show ?thesis
      by (simp add: gw_detection_sentinel)
  next
    case valid: False
    show ?thesis
    proof (cases "matrixGL_RH ev")
      case PoseMissing
      with valid d show ?thesis
        by (simp add: gw_detection_missing)
    next
      case (PoseArray m)
      obtain M where M: "fixMatrix (PoseArray m) = Inr M" by simp
      let ?g1 = "g\<lparr>gw_container_matrix := M, gw_container_visible := True,
                  lastMarkerTime := t, markerVisible := True\<rparr>"
      have h: "GhostWheelAR_handleMarkerDetection t ev g = Inr ?g1"
        by (rule gw_detection_accepts [OF valid PoseArray M])
      from Cons.IH [of ?g1] valid PoseArray d show ?thesis
        by (simp add: h)
    qed
  qed
qed

lemma gw_process_state:
  "fst (GhostWheelAR_process r g) = fst (GhostWheelAR_dispatch (detections r) g)"
  by (simp add: GhostWheelAR_process_def split: prod.splits option.splits)

lemma gw_renderLoop_effect:
  assumes "GhostWheelAR_renderLoop videoReady r now g = (g', None)"
  shows "lastMarkerTime g' = last (lastMarkerTime g # gw_event_times (GwFrame videoReady r now) g)"
    and "gw_container_visible g' \<Longrightarrow> now - lastMarkerTime g' \<le> 200"
    and "gw_container_visible g' \<Longrightarrow>
           gw_container_visible g \<or> gw_event_times (GwFrame videoReady r now) g \<noteq> []"
    and "now - lastMarkerTime g' > 200 \<Longrightarrow> \<not> gw_container_visible g' \<and> \<not> markerVisible g'"
proof -
  define p where "p = (if gw_arLoaded g \<and> videoReady then GhostWheelAR_process r g else (g, None))"
  obtain g1 e1 where p: "p = (g1, e1)" by (cases p)
  from assms have e1: "e1 = None"
    unfolding GhostWheelAR_renderLoop_def p_def [symmetric] p
    by (simp split: option.splits)
  from assms have g': "g' = (if now - lastMarkerTime g1 > 200
           then g1\<lparr>gw_container_visible := False, markerVisible := False\<rparr> else g1)"
    unfolding GhostWheelAR_renderLoop_def p_def [symmetric] p e1
    by simp
  have g1: "g1 = (if gw_arLoaded g \<and> videoReady
                  then fst (GhostWheelAR_dispatch (detections r) g) else g)"
    using p unfolding p_def by (auto simp: gw_process_state [symmetric])
  have l1: "lastMarkerTime g1 = last (lastMarkerTime g # gw_event_times (GwFrame videoReady r now) g)"
    using gw_dispatch_effect [of "detections r" g] by (simp add: g1)
  have v1: "gw_container_visible g1 =
              (gw_container_visible g \<or> gw_event_times (GwFrame videoReady r now) g \<noteq> [])"
    using gw_dispatch_effect [of "detections r" g] by (simp add: g1)
  show "lastMarkerTime g' = last (lastMarkerTime g # gw_event_times (GwFrame videoReady r now) g)"
    using l1 by (simp add: g')
  show "now - lastMarkerTime g' \<le> 200" if "gw_container_visible g'"
    using that by (simp add: g' split: if_splits)
  show "gw_container_visible g \<or> gw_event_times (GwFrame videoReady r now) g \<noteq> []"
    if "gw_container_visible g'"
    using that v1 by (simp add: g' split: if_splits)
  show "\<not> gw_container_visible g' \<and> \<not> markerVisible g'" if "now - lastMarkerTime g' > 200"
    using that by (simp add: g' split: if_splits)
qed

lemma gw_frame_state:
  "lastMarkerTime (fst (GhostWheelAR_renderLoop videoReady r now g))
     = last (lastMarkerTime g # gw_event_times (GwFrame videoReady r now) g)"
  "gw_container_visible (fst (GhostWheelAR_renderLoop videoReady r now g)) \<Longrightarrow>
     gw_container_visible g \<or> gw_event_times (GwFrame videoReady r now) g \<noteq> []"
proof -
  define p where "p = (if gw_arLoaded g \<and> videoReady then GhostWheelAR_process r g else (g, None))"
  obtain g1 e1 where p: "p = (g1, e1)" by (cases p)
  have g1: "g1 = (if gw_arLoaded g \<and> videoReady
                  then fst (GhostWheelAR_dispatch (detections r) g) else g)"
    using p unfolding p_def by (auto simp: gw_process_state [symmetric])
  have l1: "lastMarkerTime g1 = last (lastMarkerTime g # gw_event_times (GwFrame videoReady r now) g)"
    using gw_dispatch_effect [of "detections r" g] by (simp add: g1)
  have v1: "gw_container_visible g1 =
              (gw_container_visible g \<or> gw_event_times (GwFrame videoReady r now) g \<noteq> [])"
    using gw_dispatch_effect [of "detections r" g] by (simp add: g1)
  have f: "fst (GhostWheelAR_renderLoop videoReady r now g) =
             (case e1 of Some e \<Rightarrow> g1
              | None \<Rightarrow> if now - lastMarkerTime g1 > 200
                  then g1\<lparr>gw_container_visible := False, markerVisible := False\<rparr> else g1)"
    unfolding GhostWheelAR_renderLoop_def p_def [symmetric] p
    by (simp split: option.splits)
  show "lastMarkerTime (fst (GhostWheelAR_renderLoop videoReady r now g))
     = last (lastMarkerTime g # gw_event_times (GwFrame videoReady r now) g)"
    using l1 by (simp add: f split: option.splits)
  show "gw_container_visible g \<or> gw_event_times (GwFrame videoReady r now) g \<noteq> []"
    if "gw_container_visible (fst (GhostWheelAR_renderLoop videoReady r now g))"
    using that v1 by (simp add: f split: option.splits if_splits)
qed

lemma handleHandTrackingData_marker:
  "lastMarkerTime (handleHandTrackingData d g) = lastMarkerTime g"
  "gw_container_visible (handleHandTrackingData d g) = gw_container_visible g"
  by (simp_all add: handleHandTrackingData_gated storeSteering_frame updateCarMovement_frame)

lemma gw_step_shown:
  assumes "gw_container_visible g \<longrightarrow> lastMarkerTime g \<in> T"
  shows "gw_container_visible (gw_step e g)
           \<longrightarrow> lastMarkerTime (gw_step e g) \<in> T \<union> set (gw_event_times e g)"
proof (cases e)
  case (GwFrame videoReady r now)
  define ts where "ts = gw_event_times e g"
  have l: "lastMarkerTime (gw_step e g) = last (lastMarkerTime g # ts)"
    unfolding ts_def GwFrame using gw_frame_state(1) [of videoReady r now g] by simp
  have v: "gw_container_visible g \<or> ts \<noteq> []" if "gw_container_visible (gw_step e g)"
    using that gw_frame_state(2) [of videoReady r now g]
    unfolding ts_def GwFrame by simp
  have "lastMarkerTime (gw_step e g) \<in> T \<union> set ts" if "gw_container_visible (gw_step e g)"
  proof (cases "ts = []")
    case True
    with v [OF that] assms l show ?thesis by simp
  next
    case False
    then have "last (lastMarkerTime g # ts) \<in> set ts" by simp
    with l show ?thesis by simp
  qed
  then show ?thesis unfolding ts_def by blast
qed (use assms in \<open>simp_all add: handleHandTrackingData_marker\<close>)

lemma gw_run_shown:
  "gw_container_visible g \<longrightarrow> lastMarkerTime g \<in> T \<Longrightarrow>
   gw_container_visible (fold gw_step es g)
     \<longrightarrow> lastMarkerTime (fold gw_step es g) \<in> T \<union> set (gw_run_times es g)"
proof (induction es arbitrary: g T)
  case Nil
  then show ?case by simp
next
  case (Cons e es)
  from Cons.IH [OF gw_step_shown [OF Cons.prems, of e]]
  show ?case by (simp add: Un_assoc)
qed

lemma gw_run_times_append:
  "gw_run_times (es @ [e]) g = gw_run_times es g @ gw_event_times e (fold gw_step es g)"
  by (induction es arbitrary: g) simp_all

lemma gw_dispatch_returns:
  "\<forall>d \<in> set ds. idMatrix (snd d) = - 1 \<or> matrixGL_RH (snd d) \<noteq> PoseMissing
   \<Longrightarrow> snd (GhostWheelAR_dispatch ds g) = None"
proof (induction ds arbitrary: g)
  case Nil
  show ?case by simp
next
  case (Cons d ds)
  obtain t ev where d: "d = (t, ev)" by (cases d)
  show ?case
  proof (cases "idMatrix ev = - 1")
    case True
    with Cons d show ?thesis by (simp add: gw_detection_sentinel)
  next
    case False
    with Cons.prems d obtain m where m: "matrixGL_RH ev = PoseArray m"
      by (cases "matrixGL_RH ev") auto
    obtain M where M: "fixMatrix (PoseArray m) = Inr M" by simp
    from Cons d show ?thesis
      by (simp add: gw_detection_accepts [OF False m M])
  qed
qed

lemma gw_renderLoop_returns:
  assumes "\<forall>d \<in> set (detections r). idMatrix (snd d) = - 1 \<or> matrixGL_RH (snd d) \<noteq> PoseMissing"
    and "\<not> fails r"
  shows "snd (GhostWheelAR_renderLoop videoReady r now g) = None"
proof -
  obtain g1 e1 where p: "GhostWheelAR_dispatch (detections r) g = (g1, e1)"
    by (cases "GhostWheelAR_dispatch (detections r) g")
  with gw_dispatch_returns [OF assms(1), of g] have "e1 = None" by simp
  with p assms(2) show ?thesis
    by (simp add: GhostWheelAR_renderLoop_def GhostWheelAR_process_def)
qed

lemma gw_ready_run: "fold gw_step [GwARLoaded, GwCarLoaded plain_mesh] GhostWheelAR_init = gw_ready"
  by (simp add: gw_ready_def)

lemma sees_marker7_returns:
  "snd (GhostWheelAR_renderLoop videoReady sees_marker7 now g) = None"
  by (rule gw_renderLoop_returns) (simp_all add: sees_marker7_def marker7_def)

lemma sees_nothing_returns:
  "snd (GhostWheelAR_renderLoop videoReady sees_nothing now g) = None"
  by (rule gw_renderLoop_returns) (simp_all add: sees_nothing_def no_marker_def)

lemma gw_tracking_frame:
  "GhostWheelAR_renderLoop True sees_marker7 50 gw_ready = (gw_tracking, None)"
  using sees_marker7_returns [of True 50 gw_ready]
  by (simp add: gw_tracking_def prod_eq_iff)

lemma gw_ready_fields:
  "gw_arLoaded gw_ready" "car gw_ready = Some plain_mesh"
  "lastMarkerTime gw_ready = 0" "\<not> gw_container_visible gw_ready"
  by (simp_all add: gw_ready_def GhostWheelAR_init_def)

lemma gw_tracking_fields:
  "carPosition_x gw_tracking = 0" "carPosition_z gw_tracking = 0" "carRotation gw_tracking = 0"
  "smoothedSteering gw_tracking = 0" "steeringSmoothing gw_tracking = 0.1"
  "car gw_tracking = Some plain_mesh" "markerVisible gw_tracking"
  "gw_container_visible gw_tracking" "lastMarkerTime gw_tracking = 40"
  "gw_arLoaded gw_tracking"
  by (simp_all add: gw_tracking_def gw_ready_def GhostWheelAR_init_def
      GhostWheelAR_renderLoop_def GhostWheelAR_process_def sees_marker7_def marker7_def
      GhostWheelAR_handleMarkerDetection_def updateMarkerMatrix_def)

text \<open>
  Claim C9. \<open>handleHandTrackingData\<close> first moves the smoothed steering angle towards
  the angle of the message by the smoothing factor. When the confidence of the message
  is at or below 0.7, the position, the heading and the mesh of the car are what they
  were; whenever position or heading differ afterwards, the confidence was above 0.7;
  and when the car is integrated, it is with the angle just smoothed.
\<close>

theorem confidence_gates_motion:
  "smoothedSteering (handleHandTrackingData d g) =
     smoothedSteering g + (or_zero (steering_angle d) - smoothedSteering g) * steeringSmoothing g \<and>
   (\<not> or_zero (confidence d) > 0.7 \<longrightarrow>
      carPosition_x (handleHandTrackingData d g) = carPosition_x g \<and>
      carPosition_z (handleHandTrackingData d g) = carPosition_z g \<and>
      carRotation (handleHandTrackingData d g) = carRotation g \<and>
      car (handleHandTrackingData d g) = car g) \<and>
   (carPosition_x (handleHandTrackingData d g) \<noteq> carPosition_x g \<or>
    carPosition_z (handleHandTrackingData d g) \<noteq> carPosition_z g \<or>
    carRotation (handleHandTrackingData d g) \<noteq> carRotation g \<longrightarrow>
      or_zero (confidence d) > 0.7) \<and>
   (or_zero (confidence d) > 0.7 \<and> car g \<noteq> None \<and> markerVisible g \<longrightarrow>
      carRotation (handleHandTrackingData d g)
        = carRotation g + degToRad (smoothedSteering (handleHandTrackingData d g)) * 0.02 \<and>
      carPosition_x (handleHandTrackingData d g)
        = carPosition_x g + sin (carRotation (handleHandTrackingData d g)) * carSpeed g \<and>
      carPosition_z (handleHandTrackingData d g)
        = carPosition_z g + cos (carRotation (handleHandTrackingData d g)) * carSpeed g)"
  by (simp add: handleHandTrackingData_gated storeSteering_frame storeSteering_values
      updateCarMovement_frame updateCarMovement_values)

text \<open>
  Claim C9 at an instance that tracks a marker, for a message with confidence 0.5 and
  for one with confidence 0.9, both with the angle 30.
\<close>

theorem confidence_gates_motion_witness:
  "\<not> or_zero (confidence unsure_message) > 0.7 \<and>
   smoothedSteering (handleHandTrackingData unsure_message gw_tracking) = 3 \<and>
   carPosition_x (handleHandTrackingData unsure_message gw_tracking) = carPosition_x gw_tracking \<and>
   carPosition_z (handleHandTrackingData unsure_message gw_tracking) = carPosition_z gw_tracking \<and>
   carRotation (handleHandTrackingData unsure_message gw_tracking) = carRotation gw_tracking \<and>
   or_zero (confidence sure_message) > 0.7 \<and> car gw_tracking \<noteq> None \<and>
   markerVisible gw_tracking \<and>
   carRotation (handleHandTrackingData sure_message gw_tracking) \<noteq> carRotation gw_tracking \<and>
   carRotation (handleHandTrackingData sure_message gw_tracking) = degToRad 3 * 0.02"
proof -
  have lo: "\<not> or_zero (confidence unsure_message) > 0.7"
    "or_zero (steering_angle unsure_message) = 30"
    by (simp_all add: unsure_message_def or_zero_def)
  have hi: "or_zero (confidence sure_message) > 0.7"
    "or_zero (steering_angle sure_message) = 30"
    by (simp_all add: sure_message_def or_zero_def)
  have nz: "degToRad 3 * 0.02 \<noteq> 0"
    by (simp add: degToRad_def)
  have rest: "car gw_tracking \<noteq> None \<and> markerVisible gw_tracking"
    by (simp add: gw_tracking_fields)
  from confidence_gates_motion [of unsure_message gw_tracking] lo
  have u: "smoothedSteering (handleHandTrackingData unsure_message gw_tracking) = 3 \<and>
     carPosition_x (handleHandTrackingData unsure_message gw_tracking) = carPosition_x gw_tracking \<and>
     carPosition_z (handleHandTrackingData unsure_message gw_tracking) = carPosition_z gw_tracking \<and>
     carRotation (handleHandTrackingData unsure_message gw_tracking) = carRotation gw_tracking"
    by (simp add: gw_tracking_fields)
  from confidence_gates_motion [of sure_message gw_tracking] hi rest
  have s3: "smoothedSteering (handleHandTrackingData sure_message gw_tracking) = 3"
    and r: "carRotation (handleHandTrackingData sure_message gw_tracking)
        = carRotation gw_tracking
          + degToRad (smoothedSteering (handleHandTrackingData sure_message gw_tracking)) * 0.02"
    by (simp_all add: gw_tracking_fields)
  have r3: "carRotation (handleHandTrackingData sure_message gw_tracking) = degToRad 3 * 0.02"
    unfolding r s3 by (simp add: gw_tracking_fields)
  from lo(1) u hi(1) rest r3 nz show ?thesis
    by (simp add: gw_tracking_fields)
qed

text \<open>
  When a run of the render loop of the class reaches its end, \<open>lastMarkerTime\<close> is
  the time of the last detection handled so far; when the check finds it more than
  200 ms back, the container is hidden and \<open>markerVisible\<close> is cleared; so a visible
  container has a detection at most 200 ms old. Along every sequence of events from the
  constructor on, a container that is visible after such a run has a handled detection
  of that sequence at most 200 ms before the check.
\<close>

lemma no_persistent_anchor:
  "(GhostWheelAR_renderLoop videoReady r now g = (g', None) \<longrightarrow>
      lastMarkerTime g' = last (lastMarkerTime g # gw_event_times (GwFrame videoReady r now) g) \<and>
      (now - lastMarkerTime g' > 200 \<longrightarrow> \<not> gw_container_visible g' \<and> \<not> markerVisible g') \<and>
      (gw_container_visible g' \<longrightarrow> now - lastMarkerTime g' \<le> 200)) \<and>
   (GhostWheelAR_renderLoop videoReady r now (fold gw_step es GhostWheelAR_init) = (g', None) \<and>
    gw_container_visible g' \<longrightarrow>
      (\<exists>t \<in> set (gw_run_times (es @ [GwFrame videoReady r now]) GhostWheelAR_init).
          now - t \<le> 200))"
proof -
  have one: "lastMarkerTime g' = last (lastMarkerTime g # gw_event_times (GwFrame videoReady r now) g) \<and>
      (now - lastMarkerTime g' > 200 \<longrightarrow> \<not> gw_container_visible g' \<and> \<not> markerVisible g') \<and>
      (gw_container_visible g' \<longrightarrow> now - lastMarkerTime g' \<le> 200)"
    if "GhostWheelAR_renderLoop videoReady r now g = (g', None)"
    using gw_renderLoop_effect [OF that] by blast
  have run: "\<exists>t \<in> set (gw_run_times (es @ [GwFrame videoReady r now]) GhostWheelAR_init).
          now - t \<le> 200"
    if ret: "GhostWheelAR_renderLoop videoReady r now (fold gw_step es GhostWheelAR_init) = (g', None)"
      and vis: "gw_container_visible g'"
  proof -
    let ?e = "GwFrame videoReady r now"
    have g': "g' = fold gw_step (es @ [?e]) GhostWheelAR_init"
      using ret by simp
    have "gw_container_visible GhostWheelAR_init \<longrightarrow> lastMarkerTime GhostWheelAR_init \<in> {}"
      by (simp add: GhostWheelAR_init_def)
    from gw_run_shown [OF this, of "es @ [?e]"] vis
    have "lastMarkerTime g' \<in> set (gw_run_times (es @ [?e]) GhostWheelAR_init)"
      unfolding g' by simp
    moreover have "now - lastMarkerTime g' \<le> 200"
      by (rule gw_renderLoop_effect(2) [OF ret vis])
    ultimately show ?thesis by blast
  qed
  from one run show ?thesis by blast
qed

text \<open>
  The same at a frame at time 300 that sees no marker, 260 ms after the last
  detection, and at the frame at time 50 that has just seen marker 7.
\<close>

lemma no_persistent_anchor_example:
  "GhostWheelAR_renderLoop True sees_nothing 300 gw_tracking
     = (fst (GhostWheelAR_renderLoop True sees_nothing 300 gw_tracking), None) \<and>
   300 - lastMarkerTime (fst (GhostWheelAR_renderLoop True sees_nothing 300 gw_tracking)) > 200 \<and>
   \<not> gw_container_visible (fst (GhostWheelAR_renderLoop True sees_nothing 300 gw_tracking)) \<and>
   \<not> markerVisible (fst (GhostWheelAR_renderLoop True sees_nothing 300 gw_tracking)) \<and>
   GhostWheelAR_renderLoop True sees_marker7 50
       (fold gw_step [GwARLoaded, GwCarLoaded plain_mesh] GhostWheelAR_init)
     = (gw_tracking, None) \<and>
   gw_container_visible gw_tracking \<and>
   (\<exists>t \<in> set (gw_run_times ([GwARLoaded, GwCarLoaded plain_mesh] @ [GwFrame True sees_marker7 50])
                 GhostWheelAR_init).
       50 - t \<le> 200)"
proof -
  let ?g = "fst (GhostWheelAR_renderLoop True sees_nothing 300 gw_tracking)"
  have ret: "GhostWheelAR_renderLoop True sees_nothing 300 gw_tracking = (?g, None)"
    using sees_nothing_returns [of True 300 gw_tracking] by (simp add: prod_eq_iff)
  have ts: "gw_event_times (GwFrame True sees_nothing 300) gw_tracking = []"
    by (simp add: sees_nothing_def no_marker_def)
  have late: "300 - lastMarkerTime ?g > 200"
    unfolding gw_frame_state(1) ts by (simp add: gw_tracking_fields)
  have trk: "GhostWheelAR_renderLoop True sees_marker7 50
       (fold gw_step [GwARLoaded, GwCarLoaded plain_mesh] GhostWheelAR_init)
     = (gw_tracking, None)"
    unfolding gw_ready_run by (rule gw_tracking_frame)
  from no_persistent_anchor [where videoReady = True and r = sees_nothing and now = 300
      and g = gw_tracking and g' = ?g]
  have a: "\<not> gw_container_visible ?g \<and> \<not> markerVisible ?g"
    using ret late by blast
  from no_persistent_anchor [where videoReady = True and r = sees_marker7 and now = 50
      and es = "[GwARLoaded, GwCarLoaded plain_mesh]" and g' = gw_tracking]
  have b: "\<exists>t \<in> set (gw_run_times ([GwARLoaded, GwCarLoaded plain_mesh] @ [GwFrame True sees_marker7 50])
                 GhostWheelAR_init).
       50 - t \<le> 200"
    using trk gw_tracking_fields(8) by blast
  from ret late a trk gw_tracking_fields(8) b show ?thesis by blast
qed

text \<open>
  The render loop of the keyboard variant calls \<open>process\<close> inside a \<open>try\<close>: when the
  call throws, the rest of the frame still runs.
\<close>

lemma renderLoop_outlives_throw:
  "fst (renderLoop E t recognizer_throws w)
     = updateContainerTransform (updateCarPhysics_page w)"
  by (simp add: renderLoop_def Let_def process_def recognizer_throws_def)

text \<open>
  Claim C10 fails where \<open>arController.process\<close> throws, which the render loop of the
  class does not catch: the run ends before the block "Check marker visibility
  timeout". At a frame at time 5000 on the instance whose last detection was at time
  40, the container stays visible and \<open>markerVisible\<close> stays set, 4960 ms after that
  detection.
\<close>

theorem throwing_frame_skips_visibility_check:
  "GhostWheelAR_renderLoop True recognizer_throws 5000 gw_tracking
     = (gw_tracking, Some RecognizerError) \<and>
   5000 - lastMarkerTime gw_tracking > 200 \<and>
   gw_container_visible gw_tracking \<and> markerVisible gw_tracking"
  by (simp add: GhostWheelAR_renderLoop_def GhostWheelAR_process_def recognizer_throws_def
      gw_tracking_fields)

end
